theory Spec2Isabelle
  imports Complex_Main
begin

section \<open>GitHub API rate limit tester: the measurement pipeline\<close>

text \<open>
  A shallow embedding of \<^verbatim>\<open>github_api_tester_clean.py\<close>: the class
  \<^verbatim>\<open>GitHubAPITester\<close> (constructor, \<^verbatim>\<open>make_request\<close>, the three pattern
  drivers, \<^verbatim>\<open>analyze_results\<close>) and the script entry point \<^verbatim>\<open>main\<close>.

  Python floats are modelled as real numbers, rounding aside; a float that is not a
  finite number (NaN, an infinity) is the value \<open>NotFinite\<close> of the type \<open>number\<close>.
  Python's unbounded integers are \<open>int\<close>. Strings are \<open>string\<close>, one \<open>char\<close> per
  character (the code points up to 255, which is what a header decoded as Latin-1 holds).

  The calls into the interpreter and its libraries whose outcome depends on more than
  the repository's code (\<^verbatim>\<open>int()\<close>, \<^verbatim>\<open>pd.to_numeric\<close>, numpy's division,
  \<^verbatim>\<open>time.sleep\<close>, the float addition of the delays) are the fields of a record
  \<open>library\<close> that the functions below take as a parameter: every theorem holds for
  every behaviour of these calls.
\<close>

subsection \<open>Numbers, exceptions and the library\<close>

text \<open>
  A float of the summary: a finite number, or not one (NaN or an infinity).
\<close>

datatype number = Finite real | NotFinite

text \<open>
  The exceptions that leave the modelled functions: the \<^verbatim>\<open>ValueError\<close> the constructor
  raises, with its message; the \<^verbatim>\<open>ValueError\<close> of \<^verbatim>\<open>int(s)\<close>, with the text \<open>s\<close> it
  rejects; the \<^verbatim>\<open>ValueError\<close> of \<^verbatim>\<open>time.sleep\<close> for a negative duration; an
  \<^verbatim>\<open>OverflowError\<close>; an \<^verbatim>\<open>OSError\<close>.
\<close>

datatype exn =
  ValueError string
  | InvalidLiteral string
  | NegativeSleep
  | OverflowError
  | OSError

text \<open>
  The library calls:
  \<^item> \<open>to_numeric s\<close> is the number \<^verbatim>\<open>pd.to_numeric(_, errors='coerce')\<close> reads from the
    string \<open>s\<close> of a column, \<open>NotFinite\<close> when it coerces \<open>s\<close> to NaN;
  \<^item> \<open>int_str s\<close> is the value of \<^verbatim>\<open>int(s)\<close>, \<open>None\<close> when it raises
    \<^verbatim>\<open>ValueError\<close>;
  \<^item> \<open>true_divide x n\<close> is the outcome of \<^verbatim>\<open>x / n\<close> for a numpy scalar \<open>x\<close> and
    a Python integer \<open>n\<close>: a quotient, or the exception raised;
  \<^item> \<open>time_sleep d\<close> is \<open>None\<close> when \<^verbatim>\<open>time.sleep(d)\<close> blocks for \<open>d\<close> seconds
    and returns, and the exception when it raises;
  \<^item> \<open>float_add a b\<close> is the float \<^verbatim>\<open>a + b\<close>.
\<close>

record library =
  to_numeric :: "string \<Rightarrow> number"
  int_str :: "string \<Rightarrow> int option"
  true_divide :: "number \<Rightarrow> int \<Rightarrow> exn + number"
  time_sleep :: "real \<Rightarrow> exn option"
  float_add :: "real \<Rightarrow> real \<Rightarrow> real"

subsection \<open>The environment of one request\<close>

text \<open>
  What \<^verbatim>\<open>self.session.get(url)\<close> hands back: a response object, of which the code reads
  \<^verbatim>\<open>status_code\<close>, \<^verbatim>\<open>headers.get(name, default)\<close> and \<^verbatim>\<open>text\<close>; or an
  exception caught by \<^verbatim>\<open>except Exception as e\<close>, of which the code reads \<^verbatim>\<open>str(e)\<close>.
  The headers object is modelled by its lookup: \<open>resp_headers r name\<close> is \<open>None\<close> when
  \<^verbatim>\<open>headers.get\<close> would return its default.
\<close>

record response =
  resp_status_code :: int
  resp_headers :: "string \<rightharpoonup> string"
  resp_text :: string

datatype outcome = Response response | Raised string

text \<open>
  One exchange with the outside world, as seen by \<^verbatim>\<open>make_request\<close>: the two readings of
  \<^verbatim>\<open>time.time()\<close> (seconds), the text of \<^verbatim>\<open>datetime.now().isoformat()\<close>, and the
  outcome of the GET.
\<close>

record exchange =
  start_time :: real
  end_time :: real
  now_isoformat :: string
  outcome :: outcome

subsection \<open>Records, the tester object and the world\<close>

record request_record =
  timestamp :: string
  endpoint :: string
  status_code :: int
  response_time_ms :: real
  rate_limit_remaining :: string
  rate_limit_limit :: string
  rate_limit_reset :: string
  success :: bool
  error :: "string option"

text \<open>
  The tester object. Of the session it keeps \<open>headers_update\<close>, the entries the
  constructor writes into \<^verbatim>\<open>session.headers\<close> with \<^verbatim>\<open>update\<close>; the entries that
  \<^verbatim>\<open>requests\<close> puts there by default stay beside them and are not modelled.
\<close>

record tester =
  token :: string
  base_url :: string
  headers_update :: "(string \<times> string) list"
  results :: "request_record list"

text \<open>
  The effects outside the object: the trace of the GETs sent (with their URL) and of the
  sleeps that returned (with their duration), in the order in which they happened, and
  the lines \<^verbatim>\<open>main\<close> itself printed.
\<close>

datatype event = Get string | Sleep real

record world =
  trace :: "event list"
  stdout :: "string list"

text \<open>The URLs requested so far, and the durations slept so far.\<close>

definition sent :: "world \<Rightarrow> string list" where
  "sent w = concat (map (\<lambda>e. case e of Get u \<Rightarrow> [u] | Sleep d \<Rightarrow> []) (trace w))"

definition slept :: "world \<Rightarrow> real list" where
  "slept w = concat (map (\<lambda>e. case e of Get u \<Rightarrow> [] | Sleep d \<Rightarrow> [d]) (trace w))"

type_synonym network = "nat \<Rightarrow> exchange"

type_synonym sys = "tester \<times> world"

subsection \<open>Construction\<close>

definition truthy :: "string option \<Rightarrow> bool" where
  "truthy v = (case v of None \<Rightarrow> False | Some s \<Rightarrow> s \<noteq> [])"

definition py_or :: "string option \<Rightarrow> string option \<Rightarrow> string option" where
  "py_or a b = (if truthy a then a else b)"

definition token_required :: string where
  "token_required =
     ''GitHub token is required. Either pass it as an argument or set GITHUB_TOKEN environment variable.''"

text \<open>
  The constructor, with the argument \<^verbatim>\<open>token\<close>, the value of
  \<^verbatim>\<open>os.getenv('GITHUB_TOKEN')\<close> and the base URL; \<open>None\<close> is Python's \<^verbatim>\<open>None\<close>.
\<close>

definition init :: "string option \<Rightarrow> string option \<Rightarrow> string \<Rightarrow> exn + tester" where
  "init token_arg env_token base =
     (case py_or token_arg env_token of
        None \<Rightarrow> Inl (ValueError token_required)
      | Some tok \<Rightarrow>
          if tok = [] then Inl (ValueError token_required)
          else Inr \<lparr> token = tok, base_url = base,
                     headers_update =
                       [(''Authorization'', ''token '' @ tok),
                        (''Accept'', ''application/vnd.github.v3+json''),
                        (''User-Agent'', ''GitHub-API-Tester/1.0'')],
                     results = [] \<rparr>)"

definition default_base_url :: string where
  "default_base_url = ''https://api.github.com''"

subsection \<open>The request executor\<close>

definition headers_get :: "response \<Rightarrow> string \<Rightarrow> string \<Rightarrow> string" where
  "headers_get r name dflt = (case resp_headers r name of None \<Rightarrow> dflt | Some v \<Rightarrow> v)"

text \<open>The record built by one call: the body of \<^verbatim>\<open>try\<close> and of \<^verbatim>\<open>except\<close>.\<close>

definition build_result :: "exchange \<Rightarrow> string \<Rightarrow> request_record" where
  "build_result x ep =
     (let response_time = (end_time x - start_time x) * 1000 in
      case outcome x of
        Response r \<Rightarrow>
          (let result =
                 \<lparr> timestamp = now_isoformat x,
                   endpoint = ep,
                   status_code = resp_status_code r,
                   response_time_ms = response_time,
                   rate_limit_remaining = headers_get r ''X-RateLimit-Remaining'' ''N/A'',
                   rate_limit_limit = headers_get r ''X-RateLimit-Limit'' ''N/A'',
                   rate_limit_reset = headers_get r ''X-RateLimit-Reset'' ''N/A'',
                   success = (resp_status_code r = 200),
                   error = None \<rparr>
           in if resp_status_code r \<noteq> 200
              then result\<lparr> error := Some (take 200 (resp_text r)) \<rparr>
              else result)
      | Raised msg \<Rightarrow>
          \<lparr> timestamp = now_isoformat x,
            endpoint = ep,
            status_code = 0,
            response_time_ms = response_time,
            rate_limit_remaining = ''N/A'',
            rate_limit_limit = ''N/A'',
            rate_limit_reset = ''N/A'',
            success = False,
            error = Some msg \<rparr>)"

text \<open>
  \<^verbatim>\<open>make_request\<close>: the exchange is the network's answer to the next GET (the
  \<open>k\<close>-th GET of the run is answered by \<open>net k\<close>); the record is appended to
  \<^verbatim>\<open>self.results\<close> and returned.
\<close>

definition make_request :: "network \<Rightarrow> string \<Rightarrow> sys \<Rightarrow> request_record \<times> sys" where
  "make_request net ep s =
     (case s of (t, w) \<Rightarrow>
        (let url = base_url t @ ep;
             x = net (length (sent w));
             result = build_result x ep
         in (result, (t\<lparr> results := results t @ [result] \<rparr>, w\<lparr> trace := trace w @ [Get url] \<rparr>))))"

text \<open>A sequence of executor calls, one per endpoint of the list, in order.\<close>

fun make_requests :: "network \<Rightarrow> string list \<Rightarrow> sys \<Rightarrow> request_record list \<times> sys" where
  "make_requests net [] s = ([], s)"
| "make_requests net (ep # eps) s =
     (case make_request net ep s of (r, s1) \<Rightarrow>
        (case make_requests net eps s1 of (rs, s2) \<Rightarrow> (r # rs, s2)))"

subsection \<open>The pattern drivers\<close>

text \<open>
  \<^verbatim>\<open>time.sleep(d)\<close>: the exception the library raises, or a sleep of \<open>d\<close> seconds
  entered in the trace.
\<close>

definition sleep :: "library \<Rightarrow> real \<Rightarrow> sys \<Rightarrow> (exn + unit) \<times> sys" where
  "sleep lib d s =
     (case s of (t, w) \<Rightarrow>
        (case time_sleep lib d of
           Some e \<Rightarrow> (Inl e, s)
         | None \<Rightarrow> (Inr (), (t, w\<lparr> trace := trace w @ [Sleep d] \<rparr>))))"

text \<open>
  Each \<^verbatim>\<open>for i in range(num_requests)\<close> is a recursion over the list of indices
  \<open>[0..<nat num_requests]\<close> (empty when \<open>num_requests \<le> 0\<close>), with the local list
  \<^verbatim>\<open>results\<close> as accumulator. An exception of \<^verbatim>\<open>time.sleep\<close> leaves the driver.
\<close>

fun burst_loop ::
  "network \<Rightarrow> string \<Rightarrow> nat list \<Rightarrow> request_record list \<Rightarrow> sys \<Rightarrow> request_record list \<times> sys"
where
  "burst_loop net ep [] res s = (res, s)"
| "burst_loop net ep (i # is) res s =
     (case make_request net ep s of (result, s1) \<Rightarrow> burst_loop net ep is (res @ [result]) s1)"

definition test_burst_pattern ::
  "network \<Rightarrow> int \<Rightarrow> string \<Rightarrow> sys \<Rightarrow> request_record list \<times> sys"
where
  "test_burst_pattern net num_requests ep s = burst_loop net ep [0..<nat num_requests] [] s"

fun sustained_loop ::
  "library \<Rightarrow> network \<Rightarrow> int \<Rightarrow> real \<Rightarrow> string \<Rightarrow> nat list \<Rightarrow> request_record list \<Rightarrow> sys
     \<Rightarrow> (exn + request_record list) \<times> sys"
where
  "sustained_loop lib net num_requests interval ep [] res s = (Inr res, s)"
| "sustained_loop lib net num_requests interval ep (i # is) res s =
     (case make_request net ep s of (result, s1) \<Rightarrow>
        if int i < num_requests - 1
        then (case sleep lib interval s1 of
                (Inl e, s2) \<Rightarrow> (Inl e, s2)
              | (Inr _, s2) \<Rightarrow>
                  sustained_loop lib net num_requests interval ep is (res @ [result]) s2)
        else sustained_loop lib net num_requests interval ep is (res @ [result]) s1)"

definition test_sustained_pattern ::
  "library \<Rightarrow> network \<Rightarrow> int \<Rightarrow> real \<Rightarrow> string \<Rightarrow> sys \<Rightarrow> (exn + request_record list) \<times> sys"
where
  "test_sustained_pattern lib net num_requests interval ep s =
     sustained_loop lib net num_requests interval ep [0..<nat num_requests] [] s"

fun delayed_loop ::
  "library \<Rightarrow> network \<Rightarrow> int \<Rightarrow> real \<Rightarrow> string \<Rightarrow> nat list \<Rightarrow> real \<Rightarrow> request_record list
     \<Rightarrow> sys \<Rightarrow> (exn + request_record list) \<times> sys"
where
  "delayed_loop lib net num_requests delay_increment ep [] current_delay res s = (Inr res, s)"
| "delayed_loop lib net num_requests delay_increment ep (i # is) current_delay res s =
     (case make_request net ep s of (result, s1) \<Rightarrow>
        if int i < num_requests - 1
        then (case sleep lib current_delay s1 of
                (Inl e, s2) \<Rightarrow> (Inl e, s2)
              | (Inr _, s2) \<Rightarrow>
                  delayed_loop lib net num_requests delay_increment ep is
                    (float_add lib current_delay delay_increment) (res @ [result]) s2)
        else delayed_loop lib net num_requests delay_increment ep is current_delay
               (res @ [result]) s1)"

definition test_delayed_pattern ::
  "library \<Rightarrow> network \<Rightarrow> int \<Rightarrow> real \<Rightarrow> real \<Rightarrow> string \<Rightarrow> sys
     \<Rightarrow> (exn + request_record list) \<times> sys"
where
  "test_delayed_pattern lib net num_requests initial_delay delay_increment ep s =
     delayed_loop lib net num_requests delay_increment ep [0..<nat num_requests]
       initial_delay [] s"

text \<open>
  The value of \<^verbatim>\<open>current_delay\<close> after \<open>k\<close> sleeps: \<open>delay_increment\<close> added \<open>k\<close>
  times to \<open>initial_delay\<close>, one float addition after the other.
\<close>

definition delay_after :: "library \<Rightarrow> real \<Rightarrow> real \<Rightarrow> nat \<Rightarrow> real" where
  "delay_after lib initial_delay delay_increment k =
     ((\<lambda>d. float_add lib d delay_increment) ^^ k) initial_delay"

subsection \<open>The analyzer\<close>

record analysis =
  total_requests :: nat
  successful_requests :: nat
  failed_requests :: nat
  success_rate :: real
  avg_response_time_ms :: real
  min_response_time_ms :: real
  max_response_time_ms :: real
  std_response_time_ms :: number
  status_code_counts :: "int \<rightharpoonup> nat"
  final_rate_limit_remaining :: "number option"
  rate_limit_usage :: "number option"

text \<open>
  The pandas reductions over a column. \<^verbatim>\<open>Series.std()\<close> has \<^verbatim>\<open>ddof=1\<close>: the sum of
  squared deviations is divided by \<open>n - 1\<close>, and the result is NaN for a single row.
\<close>

definition mean :: "real list \<Rightarrow> real" where
  "mean xs = sum_list xs / real (length xs)"

definition series_min :: "real list \<Rightarrow> real" where
  "series_min xs = fold min (tl xs) (hd xs)"

definition series_max :: "real list \<Rightarrow> real" where
  "series_max xs = fold max (tl xs) (hd xs)"

definition series_std :: "real list \<Rightarrow> number" where
  "series_std xs =
     (if length xs < 2 then NotFinite
      else Finite (sqrt (sum_list (map (\<lambda>x. (x - mean xs)\<^sup>2) xs) / real (length xs - 1))))"

definition value_counts :: "int list \<Rightarrow> (int \<rightharpoonup> nat)" where
  "value_counts cs = (\<lambda>c. if c \<in> set cs then Some (count_list cs c) else None)"

text \<open>
  \<^verbatim>\<open>100 - (final / int(limit) * 100)\<close>: the division is the library's and may raise;
  the product overflows to an infinity from \<open>2^1024 - 2^970\<close> on; the product and the
  difference of a float that is not finite are not finite.
\<close>

definition percent_used :: "number \<Rightarrow> number" where
  "percent_used q =
     (case q of
        NotFinite \<Rightarrow> NotFinite
      | Finite y \<Rightarrow>
          if 2 ^ 1024 - 2 ^ 970 \<le> \<bar>y * 100\<bar> then NotFinite else Finite (100 - y * 100))"

definition usage_percent :: "library \<Rightarrow> number \<Rightarrow> int \<Rightarrow> exn + number" where
  "usage_percent lib final limit_int =
     (case true_divide lib final limit_int of
        Inl e \<Rightarrow> Inl e
      | Inr q \<Rightarrow> Inr (percent_used q))"

text \<open>The dictionary literal \<^verbatim>\<open>analysis = {...}\<close> over the data frame of all records.\<close>

definition basic_analysis :: "request_record list \<Rightarrow> analysis" where
  "basic_analysis df =
     (let successful_requests = filter (\<lambda>r. success r = True) df;
          failed_requests = filter (\<lambda>r. success r = False) df
      in \<lparr> total_requests = length df,
           successful_requests = length successful_requests,
           failed_requests = length failed_requests,
           success_rate = real (length successful_requests) / real (length df) * 100,
           avg_response_time_ms = mean (map response_time_ms df),
           min_response_time_ms = series_min (map response_time_ms df),
           max_response_time_ms = series_max (map response_time_ms df),
           std_response_time_ms = series_std (map response_time_ms df),
           status_code_counts = value_counts (map status_code df),
           final_rate_limit_remaining = None,
           rate_limit_usage = None \<rparr>)"

text \<open>\<^verbatim>\<open>rate_limit_data = df[df['rate_limit_remaining'] != 'N/A']\<close>\<close>

definition rate_limit_data :: "request_record list \<Rightarrow> request_record list" where
  "rate_limit_data df = filter (\<lambda>r. rate_limit_remaining r \<noteq> ''N/A'') df"

text \<open>
  \<^verbatim>\<open>analyze_results\<close>. The result \<open>Inr None\<close> is the empty dictionary \<^verbatim>\<open>{}\<close>; the two
  rate-limit keys of the dictionary are \<open>None\<close> when the key is not set. Line 238 first
  reads the last remaining quota, then converts the first limit, then divides.
\<close>

definition analyze_results :: "library \<Rightarrow> tester \<Rightarrow> exn + analysis option" where
  "analyze_results lib self =
     (if results self = [] then Inr None
      else
        let df = results self;
            analysis = basic_analysis df;
            rate_limit_rows = rate_limit_data df
        in if rate_limit_rows \<noteq> []
           then
             (let remaining =
                    map (\<lambda>r. to_numeric lib (rate_limit_remaining r)) rate_limit_rows;
                  final = last remaining
              in case int_str lib (rate_limit_limit (hd rate_limit_rows)) of
                   None \<Rightarrow> Inl (InvalidLiteral (rate_limit_limit (hd rate_limit_rows)))
                 | Some limit_int \<Rightarrow>
                     (case usage_percent lib final limit_int of
                        Inl e \<Rightarrow> Inl e
                      | Inr usage \<Rightarrow>
                          Inr (Some (analysis\<lparr> final_rate_limit_remaining := Some final,
                                               rate_limit_usage := Some usage \<rparr>))))
           else Inr (Some analysis))"

subsection \<open>The script\<close>

definition print :: "string \<Rightarrow> world \<Rightarrow> world" where
  "print line w = w\<lparr> stdout := stdout w @ [line] \<rparr>"

definition users_octocat :: string where
  "users_octocat = ''/users/octocat''"

text \<open>
  \<^verbatim>\<open>main\<close>, with the value of \<^verbatim>\<open>os.getenv('GITHUB_TOKEN')\<close> as argument. The progress
  lines of the drivers and the files written by \<^verbatim>\<open>save_results\<close>,
  \<^verbatim>\<open>create_visualizations\<close> and \<^verbatim>\<open>generate_report\<close> are outside the model.
\<close>

definition main ::
  "library \<Rightarrow> string option \<Rightarrow> network \<Rightarrow> world \<Rightarrow> (exn + unit) \<times> world"
where
  "main lib env_token net w =
     (let token = env_token in
      if \<not> truthy token
      then (Inr (),
            print ''Please set it with: export GITHUB_TOKEN=your_token_here''
              (print ''Error: GITHUB_TOKEN environment variable is not set.'' w))
      else
        case init token env_token default_base_url of
          Inl e \<Rightarrow> (Inl e, w)
        | Inr tester \<Rightarrow>
            (let w1 = print (replicate 50 CHR ''='')
                        (print ''Starting GitHub API Rate Limit Tests...'' w);
                 w2 = print (replicate 40 CHR ''-'')
                        (print (CHR 0x0A # ''1. Testing Burst Pattern (10 rapid requests)'') w1)
             in case test_burst_pattern net 10 users_octocat (tester, w2) of
                  (_, (t3, w3)) \<Rightarrow>
                    (let w4 = print (replicate 40 CHR ''-'')
                                (print (CHR 0x0A #
                                   ''2. Testing Sustained Pattern (20 requests at 0.5s intervals)'') w3)
                     in case test_sustained_pattern lib net 20 (1 / 2) users_octocat (t3, w4) of
                          (Inl e, (t5, w5)) \<Rightarrow> (Inl e, w5)
                        | (Inr _, (t5, w5)) \<Rightarrow>
                            (let w6 = print (replicate 40 CHR ''-'')
                                        (print (CHR 0x0A #
                                           ''3. Testing Delayed Pattern (15 requests with increasing delays)'') w5)
                             in case test_delayed_pattern lib net 15 1 (1 / 2) users_octocat (t5, w6) of
                                  (Inl e, (t7, w7)) \<Rightarrow> (Inl e, w7)
                                | (Inr _, (t7, w7)) \<Rightarrow>
                                    (let w8 = print ''Analyzing Results...''
                                                (print (CHR 0x0A # replicate 50 CHR ''='') w7)
                                     in case analyze_results lib t7 of
                                          Inl e \<Rightarrow> (Inl e, w8)
                                        | Inr analysis \<Rightarrow>
                                            (Inr (),
                                             print ''- api_test_report.txt (summary)''
                                               (print ''- api_test_visualization.png (charts)''
                                                 (print ''- github_api_test_results.csv (raw data)''
                                                   (print ''Check the following files:''
                                                     (print ''Test completed successfully!''
                                                       (print (CHR 0x0A # replicate 50 CHR ''='')
                                                          w8)))))))))))"

text \<open>
  The process: \<^verbatim>\<open>if __name__ == "__main__": main()\<close>. The interpreter exits with status
  0 when \<^verbatim>\<open>main\<close> returns and with status 1 when an exception leaves it.
\<close>

definition exit_status :: "(exn + unit) \<Rightarrow> int" where
  "exit_status r = (case r of Inr _ \<Rightarrow> 0 | Inl _ \<Rightarrow> 1)"

definition run_script ::
  "library \<Rightarrow> string option \<Rightarrow> network \<Rightarrow> world \<Rightarrow> int \<times> world"
where
  "run_script lib env_token net w =
     (case main lib env_token net w of (r, w') \<Rightarrow> (exit_status r, w'))"

definition fresh_world :: world where
  "fresh_world = \<lparr> trace = [], stdout = [] \<rparr>"

subsection \<open>The specification's standard deviation\<close>

text \<open>
  The population standard deviation of the specification's analyzer contract
  (``latency mean, min, max, population standard deviation over all records''): the sum of
  squared deviations divided by \<open>n\<close>.
\<close>

definition population_std :: "real list \<Rightarrow> real" where
  "population_std xs = sqrt (sum_list (map (\<lambda>x. (x - mean xs)\<^sup>2) xs) / real (length xs))"

subsection \<open>Concrete inputs\<close>

text \<open>A tester as the constructor builds it, and the exchanges used as examples below.\<close>

definition example_tester :: tester where
  "example_tester =
     \<lparr> token = ''t0k3n'', base_url = default_base_url,
       headers_update =
         [(''Authorization'', ''token t0k3n''),
          (''Accept'', ''application/vnd.github.v3+json''),
          (''User-Agent'', ''GitHub-API-Tester/1.0'')],
       results = [] \<rparr>"

text \<open>A response with the given status, headers and body, received after \<open>ms\<close> milliseconds.\<close>

definition reply :: "int \<Rightarrow> (string \<rightharpoonup> string) \<Rightarrow> string \<Rightarrow> real \<Rightarrow> exchange" where
  "reply code hdrs body ms =
     \<lparr> start_time = 0, end_time = ms / 1000, now_isoformat = ''2024-01-01T00:00:00'',
       outcome = Response \<lparr> resp_status_code = code, resp_headers = hdrs, resp_text = body \<rparr> \<rparr>"

text \<open>An exception with the given text, raised after \<open>ms\<close> milliseconds.\<close>

definition failure :: "string \<Rightarrow> real \<Rightarrow> exchange" where
  "failure msg ms =
     \<lparr> start_time = 0, end_time = ms / 1000, now_isoformat = ''2024-01-01T00:00:00'',
       outcome = Raised msg \<rparr>"

text \<open>
  A library for the concrete inputs below. It agrees with CPython 3.11, numpy and pandas
  on the values these inputs give to it: header values that are short strings of digits
  or the sentinel, a limit of 310 digits, sleeps of at most a few seconds or of a
  negative duration, and sums of small multiples of 0.5. Each function says where it
  stands for the real call.

  \<^verbatim>\<open>int(s)\<close>, for every string of characters up to code point 255: whitespace around
  the number is stripped (the six ASCII whitespace characters, and the next-line
  character and the no-break space, which the conversion turns into spaces), one sign is
  allowed, and the rest is decimal digits with single underscores between digits, at
  most 4300 digits; anything else raises \<^verbatim>\<open>ValueError\<close>.
\<close>

definition is_space :: "char \<Rightarrow> bool" where
  "is_space c = (c \<in> set [CHR '' '', CHR 0x09, CHR 0x0A, CHR 0x0B, CHR 0x0C, CHR 0x0D,
                           CHR 0x85, CHR 0xA0])"

definition strip :: "string \<Rightarrow> string" where
  "strip s = rev (dropWhile is_space (rev (dropWhile is_space s)))"

definition is_digit :: "char \<Rightarrow> bool" where
  "is_digit c = (c \<in> set ''0123456789'')"

definition digit_val :: "char \<Rightarrow> int" where
  "digit_val c = int (of_char c) - 48"

fun int_body :: "string \<Rightarrow> bool" where
  "int_body [] = False"
| "int_body [c] = is_digit c"
| "int_body (c # d # cs) =
     (is_digit c \<and> (if d = CHR ''_'' then int_body cs else int_body (d # cs)))"

definition digits_value :: "string \<Rightarrow> int" where
  "digits_value ds = foldl (\<lambda>a c. 10 * a + digit_val c) 0 (filter is_digit ds)"

definition py_int :: "string \<Rightarrow> int option" where
  "py_int s =
     (let t = strip s;
          neg = (t \<noteq> [] \<and> hd t = CHR ''-'');
          body = (if t \<noteq> [] \<and> (hd t = CHR ''-'' \<or> hd t = CHR ''+'') then tl t else t)
      in if int_body body \<and> length (filter is_digit body) \<le> 4300
         then Some (if neg then - digits_value body else digits_value body)
         else None)"

text \<open>
  What \<^verbatim>\<open>pd.to_numeric\<close> reads from a string of decimal digits. It stands for pandas
  only on strings of up to 18 digits, where the concrete inputs use it; every other
  string is taken as coerced to NaN.
\<close>

definition to_numeric_decimal :: "string \<Rightarrow> number" where
  "to_numeric_decimal s =
     (if s \<noteq> [] \<and> list_all is_digit s then Finite (real_of_int (digits_value s)) else NotFinite)"

text \<open>
  The quotient of a numpy scalar by a Python integer \<open>n\<close>, for \<open>n\<close> within 64 bits or
  beyond the float range: the integer is converted to a float, which raises
  \<^verbatim>\<open>OverflowError\<close> from \<open>2^1024 - 2^970\<close> on; a division by zero gives an infinity
  or NaN, with a warning. Between these ranges the outcome depends on the type of the
  scalar and on the version of numpy.
\<close>

definition float_divide :: "number \<Rightarrow> int \<Rightarrow> exn + number" where
  "float_divide x n =
     (if 2 ^ 1024 - 2 ^ 970 \<le> \<bar>n\<bar> then Inl OverflowError
      else Inr (case x of
                  NotFinite \<Rightarrow> NotFinite
                | Finite y \<Rightarrow> if n = 0 then NotFinite else Finite (y / real_of_int n)))"

text \<open>
  \<^verbatim>\<open>time.sleep\<close>, for a duration that is negative, of at most a day, or beyond
  \<open>2^63\<close> nanoseconds: \<^verbatim>\<open>ValueError\<close> for a negative duration,
  \<^verbatim>\<open>OverflowError\<close> when the duration in nanoseconds does not fit 64 bits.
\<close>

definition example_sleep :: "real \<Rightarrow> exn option" where
  "example_sleep d =
     (if d < 0 then Some NegativeSleep
      else if 2 ^ 63 \<le> d * 10 ^ 9 then Some OverflowError
      else None)"

text \<open>
  The float addition, for operands whose sum is a float (such as small multiples of
  0.5): the sum.
\<close>

definition example_library :: library where
  "example_library =
     \<lparr> to_numeric = to_numeric_decimal, int_str = py_int, true_divide = float_divide,
       time_sleep = example_sleep, float_add = (+) \<rparr>"

text \<open>GitHub's rate-limit headers with the given values of remaining and limit.\<close>

definition rate_headers :: "string \<Rightarrow> string \<Rightarrow> (string \<rightharpoonup> string)" where
  "rate_headers remaining limit_text =
     [''X-RateLimit-Remaining'' \<mapsto> remaining, ''X-RateLimit-Limit'' \<mapsto> limit_text,
      ''X-RateLimit-Reset'' \<mapsto> ''1700000000'']"

text \<open>
  An exception whose text is empty, such as \<^verbatim>\<open>MemoryError()\<close> or the
  \<^verbatim>\<open>AssertionError\<close> of a failed \<^verbatim>\<open>assert\<close> without message.
\<close>

definition silent_failure :: exchange where
  "silent_failure = failure [] 5"

text \<open>A response whose remaining-quota header has the very text of the sentinel.\<close>

definition sentinel_reply :: exchange where
  "sentinel_reply = reply 200 (rate_headers ''N/A'' ''5000'') ''{}'' 100"

text \<open>A response that carries the remaining quota but no limit.\<close>

definition remaining_only :: "string \<rightharpoonup> string" where
  "remaining_only = [''X-RateLimit-Remaining'' \<mapsto> ''10'']"

text \<open>The network that answers every request with the same exchange.\<close>

definition always :: "exchange \<Rightarrow> network" where
  "always x k = x"

text \<open>The tester after the given exchanges, requested one after the other.\<close>

definition tester_after :: "exchange list \<Rightarrow> tester" where
  "tester_after xs =
     fst (snd (make_requests (\<lambda>k. xs ! k) (replicate (length xs) users_octocat)
                 (example_tester, fresh_world)))"



text \<open>Two answered requests, after 100 and 102 ms.\<close>

definition two_latencies :: tester where
  "two_latencies = tester_after [reply 200 Map.empty ''{}'' 100, reply 200 Map.empty ''{}'' 102]"

text \<open>
  A run whose quota ceiling changes: 4999 of 5000 remaining, then a refused request with
  58 of 60 remaining.
\<close>

definition changing_limit :: tester where
  "changing_limit =
     tester_after [reply 200 (rate_headers ''4999'' ''5000'') ''{}'' 100,
                   reply 403 (rate_headers ''58'' ''60'') ''rate limit exceeded'' 120]"

text \<open>One answered request whose response has the remaining quota but no limit.\<close>

definition no_limit_header :: tester where
  "no_limit_header = tester_after [reply 200 remaining_only ''{}'' 100]"

text \<open>One refused request whose response has the remaining quota but no limit.\<close>

definition no_limit_refused :: tester where
  "no_limit_refused = tester_after [reply 403 remaining_only ''rate limit exceeded'' 120]"

text \<open>One request whose response has a remaining quota of 25 and a limit of 310 digits.\<close>

definition huge_limit :: tester where
  "huge_limit =
     tester_after [reply 200 (rate_headers ''25'' (CHR ''1'' # replicate 309 CHR ''0'')) ''{}'' 100]"


section \<open>Properties\<close>

subsection \<open>The request executor\<close>

lemma sent_append [simp]:
  "sent (w\<lparr> trace := trace w @ es \<rparr>)
     = sent w @ concat (map (\<lambda>e. case e of Get u \<Rightarrow> [u] | Sleep d \<Rightarrow> []) es)"
  by (simp add: sent_def)

lemma slept_append [simp]:
  "slept (w\<lparr> trace := trace w @ es \<rparr>)
     = slept w @ concat (map (\<lambda>e. case e of Get u \<Rightarrow> [] | Sleep d \<Rightarrow> [d]) es)"
  by (simp add: slept_def)

lemma sent_stdout [simp]: "sent (w\<lparr> stdout := x \<rparr>) = sent w"
  by (simp add: sent_def)

lemma slept_stdout [simp]: "slept (w\<lparr> stdout := x \<rparr>) = slept w"
  by (simp add: slept_def)

lemma sent_fresh_world [simp]: "sent fresh_world = []"
  by (simp add: sent_def fresh_world_def)

lemma slept_fresh_world [simp]: "slept fresh_world = []"
  by (simp add: slept_def fresh_world_def)

lemma make_request_eq:
  "make_request net ep (t, w) =
     (build_result (net (length (sent w))) ep,
      (t\<lparr> results := results t @ [build_result (net (length (sent w))) ep] \<rparr>,
       w\<lparr> trace := trace w @ [Get (base_url t @ ep)] \<rparr>))"
  by (simp add: make_request_def Let_def)

lemma make_request_fst:
  "fst (make_request net ep s) = build_result (net (length (sent (snd s)))) ep"
  by (cases s) (simp add: make_request_def Let_def)

lemma make_request_results:
  "results (fst (snd (make_request net ep s))) = results (fst s) @ [fst (make_request net ep s)]"
  by (cases s) (simp add: make_request_def Let_def)

lemma make_request_sent:
  "sent (snd (snd (make_request net ep s))) = sent (snd s) @ [base_url (fst s) @ ep]"
  by (cases s) (simp add: make_request_def Let_def)

lemma make_request_frame:
  "base_url (fst (snd (make_request net ep s))) = base_url (fst s)
   \<and> token (fst (snd (make_request net ep s))) = token (fst s)
   \<and> slept (snd (snd (make_request net ep s))) = slept (snd s)
   \<and> stdout (snd (snd (make_request net ep s))) = stdout (snd s)"
  by (cases s) (simp add: make_request_def Let_def)

lemma build_result_Response:
  "outcome x = Response r \<Longrightarrow>
     build_result x ep =
       \<lparr> timestamp = now_isoformat x, endpoint = ep, status_code = resp_status_code r,
         response_time_ms = (end_time x - start_time x) * 1000,
         rate_limit_remaining = headers_get r ''X-RateLimit-Remaining'' ''N/A'',
         rate_limit_limit = headers_get r ''X-RateLimit-Limit'' ''N/A'',
         rate_limit_reset = headers_get r ''X-RateLimit-Reset'' ''N/A'',
         success = (resp_status_code r = 200),
         error = (if resp_status_code r \<noteq> 200 then Some (take 200 (resp_text r)) else None) \<rparr>"
  by (simp add: build_result_def Let_def)

lemma build_result_Raised:
  "outcome x = Raised msg \<Longrightarrow>
     build_result x ep =
       \<lparr> timestamp = now_isoformat x, endpoint = ep, status_code = 0,
         response_time_ms = (end_time x - start_time x) * 1000,
         rate_limit_remaining = ''N/A'', rate_limit_limit = ''N/A'', rate_limit_reset = ''N/A'',
         success = False, error = Some msg \<rparr>"
  by (simp add: build_result_def Let_def)

lemma build_result_reply:
  "build_result (reply code hdrs body ms) ep =
       \<lparr> timestamp = ''2024-01-01T00:00:00'', endpoint = ep, status_code = code,
         response_time_ms = ms,
         rate_limit_remaining = (case hdrs ''X-RateLimit-Remaining'' of None \<Rightarrow> ''N/A'' | Some v \<Rightarrow> v),
         rate_limit_limit = (case hdrs ''X-RateLimit-Limit'' of None \<Rightarrow> ''N/A'' | Some v \<Rightarrow> v),
         rate_limit_reset = (case hdrs ''X-RateLimit-Reset'' of None \<Rightarrow> ''N/A'' | Some v \<Rightarrow> v),
         success = (code = 200),
         error = (if code \<noteq> 200 then Some (take 200 body) else None) \<rparr>"
  by (simp add: build_result_Response [where r = "\<lparr> resp_status_code = code, resp_headers = hdrs, resp_text = body \<rparr>"] reply_def headers_get_def)

lemma build_result_failure:
  "build_result (failure msg ms) ep =
       \<lparr> timestamp = ''2024-01-01T00:00:00'', endpoint = ep, status_code = 0,
         response_time_ms = ms,
         rate_limit_remaining = ''N/A'', rate_limit_limit = ''N/A'', rate_limit_reset = ''N/A'',
         success = False, error = Some msg \<rparr>"
  by (simp add: build_result_Raised [where msg = msg] failure_def)

lemma make_requests_results:
  "results (fst (snd (make_requests net eps s))) = results (fst s) @ fst (make_requests net eps s)"
proof (induction eps arbitrary: s)
  case Nil
  show ?case by simp
next
  case (Cons ep eps)
  obtain r s1 where a: "make_request net ep s = (r, s1)" by (cases "make_request net ep s")
  obtain rs s2 where b: "make_requests net eps s1 = (rs, s2)" by (cases "make_requests net eps s1")
  have "results (fst s1) = results (fst s) @ [r]"
    using make_request_results [of net ep s] a by simp
  moreover have "results (fst s2) = results (fst s1) @ rs"
    using Cons.IH [of s1] b by simp
  ultimately show ?case using a b by simp
qed

lemma make_requests_sent:
  "sent (snd (snd (make_requests net eps s))) = sent (snd s) @ map (\<lambda>ep. base_url (fst s) @ ep) eps"
proof (induction eps arbitrary: s)
  case Nil
  show ?case by simp
next
  case (Cons ep eps)
  obtain r s1 where a: "make_request net ep s = (r, s1)" by (cases "make_request net ep s")
  obtain rs s2 where b: "make_requests net eps s1 = (rs, s2)" by (cases "make_requests net eps s1")
  have "sent (snd s1) = sent (snd s) @ [base_url (fst s) @ ep]"
    using make_request_sent [of net ep s] a by simp
  moreover have "base_url (fst s1) = base_url (fst s)"
    using make_request_frame [of net ep s] a by simp
  moreover have "sent (snd s2) = sent (snd s1) @ map (\<lambda>ep. base_url (fst s1) @ ep) eps"
    using Cons.IH [of s1] b by simp
  ultimately show ?case using a b by simp
qed

lemma make_requests_records:
  "fst (make_requests net eps s) =
     map (\<lambda>k. build_result (net (length (sent (snd s)) + k)) (eps ! k)) [0..<length eps]"
proof (induction eps arbitrary: s)
  case Nil
  show ?case by simp
next
  case (Cons ep eps)
  obtain r s1 where a: "make_request net ep s = (r, s1)" by (cases "make_request net ep s")
  obtain rs s2 where b: "make_requests net eps s1 = (rs, s2)" by (cases "make_requests net eps s1")
  have r: "r = build_result (net (length (sent (snd s)))) ep"
    using make_request_fst [of net ep s] a by simp
  have len: "length (sent (snd s1)) = Suc (length (sent (snd s)))"
    using make_request_sent [of net ep s] a by simp
  have rs: "rs = map (\<lambda>k. build_result (net (length (sent (snd s1)) + k)) (eps ! k)) [0..<length eps]"
    using Cons.IH [of s1] b by simp
  have "map (\<lambda>k. build_result (net (length (sent (snd s)) + k)) ((ep # eps) ! k)) [0..<length (ep # eps)]
        = build_result (net (length (sent (snd s)))) ep
          # map (\<lambda>k. build_result (net (length (sent (snd s)) + Suc k)) (eps ! k)) [0..<length eps]"
    by (simp add: upt_conv_Cons map_Suc_upt [symmetric] del: upt_Suc)
  then show ?case using a b r rs len by simp
qed

lemma make_requests_length: "length (fst (make_requests net eps s)) = length eps"
  by (simp add: make_requests_records)

lemma burst_loop_eq:
  "burst_loop net ep is res s =
     (res @ fst (make_requests net (map (\<lambda>_. ep) is) s), snd (make_requests net (map (\<lambda>_. ep) is) s))"
proof (induction "is" arbitrary: res s)
  case Nil
  show ?case by simp
next
  case (Cons i "is")
  obtain r s1 where a: "make_request net ep s = (r, s1)" by (cases "make_request net ep s")
  show ?case using a Cons.IH [of "res @ [r]" s1] by (simp split: prod.splits)
qed

lemma test_burst_pattern_eq:
  "test_burst_pattern net n ep s =
     make_requests net (replicate (nat n) ep) s"
  by (simp add: test_burst_pattern_def burst_loop_eq map_replicate_const)

lemma results_tester_after:
  "results (tester_after xs) = map (\<lambda>x. build_result x users_octocat) xs"
proof -
  have "results (tester_after xs) =
          map (\<lambda>k. build_result (xs ! k) (replicate (length xs) users_octocat ! k)) [0..<length xs]"
    unfolding tester_after_def
    by (simp add: make_requests_results make_requests_records example_tester_def)
  also have "\<dots> = map (\<lambda>x. build_result x users_octocat) xs"
    by (rule nth_equalityI) simp_all
  finally show ?thesis .
qed

text \<open>
  Claim C1. Every call of \<^verbatim>\<open>make_request\<close> sends one GET and appends exactly one
  record, the one it returns, to the end of the Result Store, whatever the outcome of the
  GET (a 200, another status, an exception): the records already stored stay as they
  were, in their places. Hence after any sequence of \<open>N\<close> calls (\<open>N = 0\<close> included) the
  store holds its former records followed by exactly the \<open>N\<close> new ones in the order of
  the calls, the \<open>k\<close>-th of them built from the \<open>k\<close>-th exchange; from the empty store of
  a new tester, it holds exactly \<open>N\<close> records. The burst driver is such a sequence of
  \<open>num_requests\<close> calls.
\<close>

theorem result_store_append_only:
  "results (fst (snd (make_request net ep s))) = results (fst s) @ [fst (make_request net ep s)]
   \<and> length (sent (snd (snd (make_request net ep s)))) = Suc (length (sent (snd s)))
   \<and> results (fst (snd (make_requests net eps s))) = results (fst s) @ fst (make_requests net eps s)
   \<and> length (fst (make_requests net eps s)) = length eps
   \<and> fst (make_requests net eps s) =
        map (\<lambda>k. build_result (net (length (sent (snd s)) + k)) (eps ! k)) [0..<length eps]
   \<and> length (sent (snd (snd (make_requests net eps s)))) = length (sent (snd s)) + length eps
   \<and> (results (fst s) = [] \<longrightarrow>
        results (fst (snd (make_requests net eps s))) = fst (make_requests net eps s)
        \<and> length (results (fst (snd (make_requests net eps s)))) = length eps)
   \<and> test_burst_pattern net n ep s = make_requests net (replicate (nat n) ep) s"
  using make_requests_records [of net eps s] test_burst_pattern_eq [of net n ep s]
  by (simp add: make_request_results make_request_sent make_requests_results
        make_requests_length make_requests_sent)

text \<open>
  Three calls that all raise, from a new tester: three records.
\<close>

theorem result_store_append_only_witness:
  "results (fst (example_tester, fresh_world)) = []
   \<and> length (results (fst (snd (make_requests (always silent_failure)
        [users_octocat, users_octocat, users_octocat] (example_tester, fresh_world))))) = 3"
proof -
  have h: "results (fst (example_tester, fresh_world)) = []" by (simp add: example_tester_def)
  from result_store_append_only [where net = "always silent_failure"
         and s = "(example_tester, fresh_world)"
         and eps = "[users_octocat, users_octocat, users_octocat]"] h
  have "length (results (fst (snd (make_requests (always silent_failure)
          [users_octocat, users_octocat, users_octocat] (example_tester, fresh_world)))))
        = length [users_octocat, users_octocat, users_octocat]"
    by blast
  with h show ?thesis by simp
qed

text \<open>
  Claim C2. In the record of every call, \<open>success\<close> is true exactly when
  \<open>status_code\<close> is 200, and a record with \<open>success\<close> true has no error text; for a
  received response the status code is the response's own.
\<close>

theorem make_request_success_iff_200:
  assumes "rec = fst (make_request net ep s)"
  shows "success rec = (status_code rec = 200) \<and> (success rec \<longrightarrow> error rec = None)
         \<and> (\<forall>r. outcome (net (length (sent (snd s)))) = Response r \<longrightarrow>
               status_code rec = resp_status_code r \<and> success rec = (resp_status_code r = 200))"
proof (cases "outcome (net (length (sent (snd s))))")
  case (Response r)
  show ?thesis
    using assms by (simp add: make_request_fst build_result_Response [OF Response] Response)
next
  case (Raised msg)
  show ?thesis
    using assms by (simp add: make_request_fst build_result_Raised [OF Raised] Raised)
qed

theorem make_request_success_iff_200_witness:
  "success (fst (make_request (\<lambda>_. reply 200 Map.empty ''{}'' 100) users_octocat (example_tester, fresh_world)))
   \<and> error (fst (make_request (\<lambda>_. reply 200 Map.empty ''{}'' 100) users_octocat (example_tester, fresh_world))) = None"
proof -
  let ?rec = "fst (make_request (\<lambda>_. reply 200 Map.empty ''{}'' 100) users_octocat (example_tester, fresh_world))"
  have h: "success ?rec"
    by (simp add: make_request_fst build_result_reply)
  have "success ?rec \<longrightarrow> error ?rec = None"
    using make_request_success_iff_200 [of ?rec "\<lambda>_. reply 200 Map.empty ''{}'' 100" users_octocat "(example_tester, fresh_world)"]
    by blast
  with h show ?thesis by blast
qed

text \<open>
  Claim C3, as amended. When the call raises, the record has \<open>status_code = 0\<close>,
  \<open>success\<close> false, the three rate-limit fields at the sentinel, and as \<open>error\<close> the
  text of the exception, whatever that text is; a received response whose status code is
  not 0 gives a record whose \<open>status_code\<close> is not 0. The text of an exception may be
  empty, and then so is the recorded error.
\<close>

theorem make_request_status_zero:
  assumes "rec = fst (make_request net ep s)" and "x = net (length (sent (snd s)))"
  shows "(\<forall>msg. outcome x = Raised msg \<longrightarrow>
            status_code rec = 0 \<and> error rec = Some msg \<and> \<not> success rec
            \<and> rate_limit_remaining rec = ''N/A'' \<and> rate_limit_limit rec = ''N/A''
            \<and> rate_limit_reset rec = ''N/A'')
         \<and> (\<forall>r. outcome x = Response r \<longrightarrow> resp_status_code r \<noteq> 0 \<longrightarrow> status_code rec \<noteq> 0)"
proof (cases "outcome x")
  case (Response r)
  show ?thesis
    using assms Response by (simp add: make_request_fst build_result_Response)
next
  case (Raised msg)
  show ?thesis
    using assms Raised by (simp add: make_request_fst build_result_Raised)
qed

theorem make_request_status_zero_witness:
  "status_code (fst (make_request (\<lambda>_. failure ''Connection refused'' 5) users_octocat (example_tester, fresh_world))) = 0
   \<and> error (fst (make_request (\<lambda>_. failure ''Connection refused'' 5) users_octocat (example_tester, fresh_world))) = Some ''Connection refused''
   \<and> status_code (fst (make_request (\<lambda>_. reply 403 Map.empty ''rate limit exceeded'' 120) users_octocat (example_tester, fresh_world))) \<noteq> 0"
proof -
  let ?f = "\<lambda>_::nat. failure ''Connection refused'' 5"
  let ?g = "\<lambda>_::nat. reply 403 Map.empty ''rate limit exceeded'' 120"
  let ?s = "(example_tester, fresh_world)"
  have a: "outcome (?f (length (sent (snd ?s)))) = Raised ''Connection refused''"
    by (simp add: failure_def)
  have b: "outcome (?g (length (sent (snd ?s)))) =
             Response \<lparr> resp_status_code = 403, resp_headers = Map.empty, resp_text = ''rate limit exceeded'' \<rparr>"
    by (simp add: reply_def)
  have c: "resp_status_code \<lparr> resp_status_code = 403, resp_headers = Map.empty, resp_text = ''rate limit exceeded'' \<rparr> \<noteq> 0"
    by simp
  from make_request_status_zero [where net = ?f and ep = users_octocat and s = ?s, OF refl refl] a
  have "status_code (fst (make_request ?f users_octocat ?s)) = 0
        \<and> error (fst (make_request ?f users_octocat ?s)) = Some ''Connection refused''"
    by blast
  moreover from make_request_status_zero [where net = ?g and ep = users_octocat and s = ?s, OF refl refl] b c
  have "status_code (fst (make_request ?g users_octocat ?s)) \<noteq> 0"
    by blast
  ultimately show ?thesis by blast
qed

text \<open>
  The claim as stated asks for a non-empty error for every exception: an exception
  without text gives \<open>status_code = 0\<close> and the empty error text.
\<close>

theorem empty_exception_text_counterexample:
  "status_code (fst (make_request (\<lambda>_. silent_failure) users_octocat (example_tester, fresh_world))) = 0
   \<and> error (fst (make_request (\<lambda>_. silent_failure) users_octocat (example_tester, fresh_world))) = Some []"
  by (simp add: make_request_fst silent_failure_def build_result_failure)


lemma rate_limit_data_append:
  "rate_limit_data (xs @ ys) = rate_limit_data xs @ rate_limit_data ys"
  by (simp add: rate_limit_data_def)

text \<open>
  Claim C10, as amended. For every received response, whatever its status code, each
  rate-limit field of the record is the value of its header, as it is, when the header is
  present, and the sentinel \<^verbatim>\<open>'N/A'\<close> when it is missing; so a field holds
  \<^verbatim>\<open>'N/A'\<close> exactly when the header is missing or its own value is that text. A
  record whose remaining-quota header is present with another value belongs to the rows
  the analyzer selects, also when the request was refused. When the call raises, the
  three fields hold the sentinel.
\<close>

theorem rate_limit_headers_verbatim:
  assumes "rec = fst (make_request net ep s)" and "x = net (length (sent (snd s)))"
  shows "(\<forall>r. outcome x = Response r \<longrightarrow>
            rate_limit_remaining rec =
              (case resp_headers r ''X-RateLimit-Remaining'' of None \<Rightarrow> ''N/A'' | Some v \<Rightarrow> v)
            \<and> rate_limit_limit rec =
              (case resp_headers r ''X-RateLimit-Limit'' of None \<Rightarrow> ''N/A'' | Some v \<Rightarrow> v)
            \<and> rate_limit_reset rec =
              (case resp_headers r ''X-RateLimit-Reset'' of None \<Rightarrow> ''N/A'' | Some v \<Rightarrow> v)
            \<and> (rate_limit_remaining rec = ''N/A'' \<longleftrightarrow>
                 resp_headers r ''X-RateLimit-Remaining'' = None
                 \<or> resp_headers r ''X-RateLimit-Remaining'' = Some ''N/A'')
            \<and> (rate_limit_limit rec = ''N/A'' \<longleftrightarrow>
                 resp_headers r ''X-RateLimit-Limit'' = None
                 \<or> resp_headers r ''X-RateLimit-Limit'' = Some ''N/A'')
            \<and> (rate_limit_reset rec = ''N/A'' \<longleftrightarrow>
                 resp_headers r ''X-RateLimit-Reset'' = None
                 \<or> resp_headers r ''X-RateLimit-Reset'' = Some ''N/A'')
            \<and> (\<forall>v. resp_headers r ''X-RateLimit-Remaining'' = Some v \<and> v \<noteq> ''N/A'' \<longrightarrow>
                  rec \<in> set (rate_limit_data (results (fst (snd (make_request net ep s)))))))
         \<and> (\<forall>msg. outcome x = Raised msg \<longrightarrow>
              rate_limit_remaining rec = ''N/A'' \<and> rate_limit_limit rec = ''N/A''
              \<and> rate_limit_reset rec = ''N/A'')"
proof (cases "outcome x")
  case (Response r)
  have rec: "rec = build_result x ep" using assms by (simp add: make_request_fst)
  have res: "results (fst (snd (make_request net ep s))) = results (fst s) @ [rec]"
    using assms(1) by (simp add: make_request_results)
  show ?thesis
    unfolding res rate_limit_data_append
    using Response
    by (auto simp: rec build_result_Response [OF Response] headers_get_def rate_limit_data_def
             split: option.splits)
next
  case (Raised msg)
  show ?thesis
    using assms Raised by (simp add: make_request_fst build_result_Raised)
qed

theorem rate_limit_headers_verbatim_witness:
  "rate_headers ''58'' ''60'' ''X-RateLimit-Remaining'' = Some ''58'' \<and> ''58'' \<noteq> ''N/A''
   \<and> status_code (fst (make_request (always (reply 403 (rate_headers ''58'' ''60'') ''rate limit exceeded'' 120))
                         users_octocat (example_tester, fresh_world))) = 403
   \<and> fst (make_request (always (reply 403 (rate_headers ''58'' ''60'') ''rate limit exceeded'' 120))
            users_octocat (example_tester, fresh_world))
      \<in> set (rate_limit_data (results (fst (snd
            (make_request (always (reply 403 (rate_headers ''58'' ''60'') ''rate limit exceeded'' 120))
               users_octocat (example_tester, fresh_world))))))
   \<and> rate_limit_remaining (fst (make_request (always (failure ''Connection refused'' 5))
                                   users_octocat (example_tester, fresh_world))) = ''N/A''"
proof -
  let ?down = "always (failure ''Connection refused'' 5)"
  have d: "outcome (?down (length (sent (snd (example_tester, fresh_world))))) = Raised ''Connection refused''"
    by (simp add: always_def failure_def)
  from rate_limit_headers_verbatim [where net = ?down and ep = users_octocat
         and s = "(example_tester, fresh_world)", OF refl refl] d
  have na: "rate_limit_remaining (fst (make_request ?down users_octocat (example_tester, fresh_world)))
              = ''N/A''"
    by blast
  let ?resp = "\<lparr> resp_status_code = 403, resp_headers = rate_headers ''58'' ''60'',
                  resp_text = ''rate limit exceeded'' \<rparr>"
  let ?net = "always (reply 403 (rate_headers ''58'' ''60'') ''rate limit exceeded'' 120)"
  let ?s = "(example_tester, fresh_world)"
  have h1: "outcome (?net (length (sent (snd ?s)))) = Response ?resp"
    by (simp add: always_def reply_def)
  have h2: "resp_headers ?resp ''X-RateLimit-Remaining'' = Some ''58''" "''58'' \<noteq> ''N/A''"
    by (simp_all add: rate_headers_def)
  have st: "status_code (fst (make_request ?net users_octocat ?s)) = 403"
    by (simp add: make_request_fst always_def build_result_reply)
  from rate_limit_headers_verbatim [where net = ?net and ep = users_octocat and s = ?s, OF refl refl]
    h1 h2
  have "fst (make_request ?net users_octocat ?s)
          \<in> set (rate_limit_data (results (fst (snd (make_request ?net users_octocat ?s)))))"
    by blast
  then show ?thesis using st h2 na by simp
qed

text \<open>
  The claim as stated allows the sentinel only for a missing header: a response whose
  header is present with the value \<^verbatim>\<open>N/A\<close> gives the sentinel too.
\<close>

theorem sentinel_header_counterexample:
  "outcome sentinel_reply =
     Response \<lparr> resp_status_code = 200, resp_headers = rate_headers ''N/A'' ''5000'', resp_text = ''{}'' \<rparr>
   \<and> rate_headers ''N/A'' ''5000'' ''X-RateLimit-Remaining'' = Some ''N/A''
   \<and> rate_limit_remaining (fst (make_request (always sentinel_reply) users_octocat
                                   (example_tester, fresh_world))) = ''N/A''"
  by (simp add: sentinel_reply_def reply_def rate_headers_def make_request_fst always_def
        build_result_Response [where r = "\<lparr> resp_status_code = 200,
           resp_headers = rate_headers ''N/A'' ''5000'', resp_text = ''{}'' \<rparr>"] headers_get_def)

subsection \<open>The pattern drivers\<close>

lemma map_upt_shift:
  "0 < n \<Longrightarrow> map f [0..<n] = f 0 # map (\<lambda>j. f (Suc j)) [0..<n - 1]"
proof -
  assume "0 < n"
  then obtain n' where n: "n = Suc n'" by (cases n) auto
  have "map f [0..<Suc n'] = f 0 # map (\<lambda>j. f (Suc j)) [0..<n']"
    by (simp add: upt_conv_Cons map_Suc_upt [symmetric] del: upt_Suc)
  then show ?thesis using n by simp
qed

lemma sleep_None:
  "time_sleep lib d = None \<Longrightarrow>
     sleep lib d (t, w) = (Inr (), (t, w\<lparr> trace := trace w @ [Sleep d] \<rparr>))"
  by (simp add: sleep_def)

lemma sleep_Some: "time_sleep lib d = Some e \<Longrightarrow> sleep lib d (t, w) = (Inl e, (t, w))"
  by (simp add: sleep_def)

lemma delayed_loop_upt:
  assumes "m = nat n" and "k \<le> m"
    and "\<forall>j. k + j < m - 1 \<longrightarrow> time_sleep lib (((\<lambda>x. float_add lib x inc) ^^ j) d) = None"
  shows "delayed_loop lib net n inc ep [k..<m] d res (t, w) =
           (Inr (res @ map (\<lambda>j. build_result (net (length (sent w) + j)) ep) [0..<m - k]),
            (t\<lparr> results := results t @ map (\<lambda>j. build_result (net (length (sent w) + j)) ep) [0..<m - k] \<rparr>,
             w\<lparr> trace := trace w @ concat (map (\<lambda>j. Get (base_url t @ ep) #
                     (if k + j < m - 1 then [Sleep (((\<lambda>x. float_add lib x inc) ^^ j) d)] else []))
                   [0..<m - k]) \<rparr>))"
  using assms
proof (induction "m - k" arbitrary: k d res t w)
  case 0
  then have "k = m" by simp
  then show ?case by simp
next
  case (Suc x)
  then have km: "k < m" by simp
  have upt: "[k..<m] = k # [Suc k..<m]" using km by (simp add: upt_conv_Cons)
  let ?f = "\<lambda>x. float_add lib x inc"
  let ?url = "base_url t @ ep"
  let ?r = "build_result (net (length (sent w))) ep"
  let ?t1 = "t\<lparr> results := results t @ [?r] \<rparr>"
  let ?w1 = "w\<lparr> trace := trace w @ [Get ?url] \<rparr>"
  let ?g = "\<lambda>j. Get ?url # (if k + j < m - 1 then [Sleep ((?f ^^ j) d)] else [])"
  have recs: "map (\<lambda>j. build_result (net (length (sent w) + j)) ep) [0..<m - k]
              = ?r # map (\<lambda>j. build_result (net (length (sent ?w1) + j)) ep) [0..<m - Suc k]"
    using km map_upt_shift [of "m - k" "\<lambda>j. build_result (net (length (sent w) + j)) ep"] by simp
  have evs: "map ?g [0..<m - k] = ?g 0 # map (\<lambda>j. ?g (Suc j)) [0..<m - Suc k]"
    using km map_upt_shift [of "m - k" ?g] by simp
  have x: "x = m - Suc k" using Suc.hyps(2) by simp
  have sw: "(?f ^^ Suc j) d = (?f ^^ j) (?f d)" for j
    by (simp only: funpow_Suc_right o_apply)
  show ?case
  proof (cases "k < m - 1")
    case True
    then have cond: "int k < n - 1" using Suc.prems(1) by simp
    have d0: "time_sleep lib d = None" using Suc.prems(3) True by (metis add.right_neutral funpow_0)
    have pre: "\<forall>j. Suc k + j < m - 1 \<longrightarrow> time_sleep lib ((?f ^^ j) (?f d)) = None"
    proof (intro allI impI)
      fix j assume "Suc k + j < m - 1"
      then have "k + Suc j < m - 1" by simp
      then have "time_sleep lib ((?f ^^ Suc j) d) = None" using Suc.prems(3) by blast
      then show "time_sleep lib ((?f ^^ j) (?f d)) = None" by (simp only: sw)
    qed
    let ?w2 = "?w1\<lparr> trace := trace ?w1 @ [Sleep d] \<rparr>"
    have sl: "sleep lib d (?t1, ?w1) = (Inr (), (?t1, ?w2))" using d0 by (rule sleep_None)
    have ih: "delayed_loop lib net n inc ep [Suc k..<m] (?f d) (res @ [?r]) (?t1, ?w2) =
           (Inr ((res @ [?r]) @ map (\<lambda>j. build_result (net (length (sent ?w2) + j)) ep) [0..<m - Suc k]),
            (?t1\<lparr> results := results ?t1 @ map (\<lambda>j. build_result (net (length (sent ?w2) + j)) ep) [0..<m - Suc k] \<rparr>,
             ?w2\<lparr> trace := trace ?w2 @ concat (map (\<lambda>j. Get (base_url ?t1 @ ep) #
                     (if Suc k + j < m - 1 then [Sleep ((?f ^^ j) (?f d))] else []))
                   [0..<m - Suc k]) \<rparr>))"
      using Suc.hyps(1) [OF x Suc.prems(1) _ pre] km by simp
    have shift: "map (\<lambda>j. ?g (Suc j)) [0..<m - Suc k]
                 = map (\<lambda>j. Get ?url # (if Suc k + j < m - 1 then [Sleep ((?f ^^ j) (?f d))] else []))
                     [0..<m - Suc k]"
      by (simp only: sw) simp
    have g0: "?g 0 = [Get ?url, Sleep d]" using True by simp
    show ?thesis
      unfolding upt delayed_loop.simps make_request_eq evs shift g0
      using cond sl ih recs by simp
  next
    case False
    then have k: "Suc k = m" using km by simp
    then have cond: "\<not> int k < n - 1" using Suc.prems(1) by auto
    have "delayed_loop lib net n inc ep [Suc k..<m] d (res @ [?r]) (?t1, ?w1) = (Inr (res @ [?r]), (?t1, ?w1))"
      using k by simp
    moreover have "m - k = 1" using k by auto
    ultimately show ?thesis
      unfolding upt delayed_loop.simps make_request_eq
      using cond False by simp
  qed
qed

lemma sustained_as_delayed:
  "sustained_loop lib net n iv ep is res s =
     delayed_loop (lib\<lparr> float_add := \<lambda>d i. d \<rparr>) net n 0 ep is iv res s"
proof (induction "is" arbitrary: res s)
  case Nil
  show ?case by simp
next
  case (Cons i "is")
  show ?case by (simp add: Cons.IH sleep_def split: prod.splits sum.splits option.splits)
qed

lemma rounds_prefix:
  "\<forall>j \<in> set js. j < k \<Longrightarrow>
     concat (map (\<lambda>j. Get u # (if j < k then [Sleep (f j)] else [])) js)
       = concat (map (\<lambda>j. [Get u, Sleep (f j)]) js)"
  by (induction js) simp_all

lemma rounds_trace:
  "0 < m \<Longrightarrow>
     concat (map (\<lambda>j. Get u # (if j < m - 1 then [Sleep (f j)] else [])) [0..<m])
       = concat (map (\<lambda>j. [Get u, Sleep (f j)]) [0..<m - 1]) @ [Get u]"
proof -
  assume "0 < m"
  then obtain m' where m: "m = Suc m'" by (cases m) auto
  have "concat (map (\<lambda>j. Get u # (if j < m' then [Sleep (f j)] else [])) [0..<m'])
          = concat (map (\<lambda>j. [Get u, Sleep (f j)]) [0..<m'])"
    by (rule rounds_prefix) simp
  then show ?thesis unfolding m by simp
qed

lemma funpow_keep:
  "((\<lambda>x. float_add (lib\<lparr> float_add := \<lambda>d i. d \<rparr>) x c) ^^ j) d = d"
  by (induction j) simp_all

lemma test_delayed_pattern_run:
  assumes "1 \<le> n"
    and "\<forall>j. j < nat n - 1 \<longrightarrow> time_sleep lib (delay_after lib d inc j) = None"
  shows "test_delayed_pattern lib net n d inc ep (t, w) =
           (Inr (map (\<lambda>j. build_result (net (length (sent w) + j)) ep) [0..<nat n]),
            (t\<lparr> results := results t @ map (\<lambda>j. build_result (net (length (sent w) + j)) ep) [0..<nat n] \<rparr>,
             w\<lparr> trace := trace w
                   @ concat (map (\<lambda>j. [Get (base_url t @ ep), Sleep (delay_after lib d inc j)])
                               [0..<nat n - 1])
                   @ [Get (base_url t @ ep)] \<rparr>))"
proof -
  have pos: "0 < nat n" using assms(1) by simp
  have pre: "\<forall>j. 0 + j < nat n - 1 \<longrightarrow>
               time_sleep lib (((\<lambda>x. float_add lib x inc) ^^ j) d) = None"
    using assms(2) by (simp add: delay_after_def)
  show ?thesis
    unfolding test_delayed_pattern_def
    using delayed_loop_upt [OF refl _ pre, of net ep "[]" t w]
      rounds_trace [OF pos, of "base_url t @ ep" "\<lambda>j. ((\<lambda>x. float_add lib x inc) ^^ j) d"]
    by (simp add: delay_after_def)
qed

lemma test_sustained_pattern_run:
  assumes "1 \<le> n" and "time_sleep lib iv = None"
  shows "test_sustained_pattern lib net n iv ep (t, w) =
           (Inr (map (\<lambda>j. build_result (net (length (sent w) + j)) ep) [0..<nat n]),
            (t\<lparr> results := results t @ map (\<lambda>j. build_result (net (length (sent w) + j)) ep) [0..<nat n] \<rparr>,
             w\<lparr> trace := trace w
                   @ concat (map (\<lambda>j. [Get (base_url t @ ep), Sleep iv]) [0..<nat n - 1])
                   @ [Get (base_url t @ ep)] \<rparr>))"
proof -
  let ?lib = "lib\<lparr> float_add := \<lambda>d i. d \<rparr>"
  have pos: "0 < nat n" using assms(1) by simp
  have pre: "\<forall>j. 0 + j < nat n - 1 \<longrightarrow>
               time_sleep ?lib (((\<lambda>x. float_add ?lib x 0) ^^ j) iv) = None"
    using assms(2) by (simp only: funpow_keep) simp
  show ?thesis
    unfolding test_sustained_pattern_def sustained_as_delayed
    using delayed_loop_upt [OF refl _ pre, of net ep "[]" t w]
      rounds_trace [OF pos, of "base_url t @ ep" "\<lambda>j. iv"]
    by (simp only: funpow_keep) simp
qed

lemma urls_rounds:
  "concat (map (\<lambda>e. case e of Get u \<Rightarrow> [u] | Sleep d \<Rightarrow> [])
             (concat (map (\<lambda>k. [Get u, Sleep (g k)]) ks))) = map (\<lambda>k. u) ks"
  by (induction ks) simp_all

lemma sleeps_rounds:
  "concat (map (\<lambda>e. case e of Get u \<Rightarrow> [] | Sleep d \<Rightarrow> [d])
             (concat (map (\<lambda>k. [Get u, Sleep (g k)]) ks))) = map g ks"
  by (induction ks) simp_all

lemma urls_rounds_replicate:
  "concat (map (\<lambda>e. case e of Get u \<Rightarrow> [u] | Sleep d \<Rightarrow> [])
             (concat (replicate n [Get u, Sleep d]))) = replicate n u"
  by (induction n) simp_all

lemma sleeps_rounds_replicate:
  "concat (map (\<lambda>e. case e of Get u \<Rightarrow> [] | Sleep d \<Rightarrow> [d])
             (concat (replicate n [Get u, Sleep d]))) = replicate n d"
  by (induction n) simp_all

lemma delay_after_exact:
  "\<forall>j < k. float_add lib (d + real j * inc) inc = d + real j * inc + inc \<Longrightarrow>
     delay_after lib d inc k = d + real k * inc"
proof (induction k)
  case 0
  show ?case by (simp add: delay_after_def)
next
  case (Suc k)
  then have "delay_after lib d inc k = d + real k * inc" by simp
  moreover have "float_add lib (d + real k * inc) inc = d + real k * inc + inc"
    using Suc.prems by simp
  ultimately show ?case by (simp add: delay_after_def algebra_simps)
qed

lemma example_library_fields:
  "time_sleep example_library = example_sleep" "float_add example_library = (+)" "int_str example_library = py_int"
  "to_numeric example_library = to_numeric_decimal" "true_divide example_library = float_divide"
  by (simp_all add: example_library_def)

lemma delay_after_example: "delay_after example_library d inc k = d + real k * inc"
  by (rule delay_after_exact) (simp add: example_library_fields)

text \<open>
  Claim C7, as amended. For every \<open>N \<ge> 1\<close> and every interval for which
  \<^verbatim>\<open>time.sleep\<close> returns, the sustained driver returns \<open>N\<close> records, all appended
  to the store, and its trace is \<open>N - 1\<close> rounds of one GET followed by one sleep of the
  interval, then the last GET with nothing after it: exactly \<open>N\<close> executor calls and
  \<open>N - 1\<close> sleeps, one between any two consecutive calls and none after the final one.
  For every \<open>N \<ge> 1\<close> and delays for which \<^verbatim>\<open>time.sleep\<close> returns, the delayed
  driver does the same, the \<open>k\<close>-th sleep lasting \<open>delay_after k\<close>: the initial delay
  for \<open>k = 0\<close>, then each time the float sum of the previous delay and the increment.
  That sum is \<open>initial_delay + k * delay_increment\<close> when the additions on the way are
  exact.
\<close>

theorem pattern_driver_rounds:
  assumes "1 \<le> N"
  shows "(time_sleep lib interval = None \<longrightarrow>
           (\<exists>recs t' w'. test_sustained_pattern lib net N interval ep (t, w) = (Inr recs, (t', w'))
              \<and> int (length recs) = N \<and> results t' = results t @ recs
              \<and> trace w' = trace w
                   @ concat (map (\<lambda>k. [Get (base_url t @ ep), Sleep interval]) [0..<nat (N - 1)])
                   @ [Get (base_url t @ ep)]
              \<and> int (length (sent w')) = int (length (sent w)) + N
              \<and> slept w' = slept w @ replicate (nat (N - 1)) interval))
         \<and> ((\<forall>k. int k < N - 1 \<longrightarrow>
                time_sleep lib (delay_after lib initial_delay delay_increment k) = None) \<longrightarrow>
           (\<exists>recs t' w'. test_delayed_pattern lib net N initial_delay delay_increment ep (t, w)
                            = (Inr recs, (t', w'))
              \<and> int (length recs) = N \<and> results t' = results t @ recs
              \<and> trace w' = trace w
                   @ concat (map (\<lambda>k. [Get (base_url t @ ep),
                                        Sleep (delay_after lib initial_delay delay_increment k)])
                               [0..<nat (N - 1)])
                   @ [Get (base_url t @ ep)]
              \<and> int (length (sent w')) = int (length (sent w)) + N
              \<and> slept w' = slept w @ map (delay_after lib initial_delay delay_increment)
                                         [0..<nat (N - 1)]))
         \<and> ((\<forall>j < k. float_add lib (initial_delay + real j * delay_increment) delay_increment
                        = initial_delay + real j * delay_increment + delay_increment) \<longrightarrow>
              delay_after lib initial_delay delay_increment k
                = initial_delay + real k * delay_increment)"
proof (intro conjI impI)
  assume "time_sleep lib interval = None"
  from test_sustained_pattern_run [OF assms this, of net ep t w] assms
  show "\<exists>recs t' w'. test_sustained_pattern lib net N interval ep (t, w) = (Inr recs, (t', w'))
              \<and> int (length recs) = N \<and> results t' = results t @ recs
              \<and> trace w' = trace w
                   @ concat (map (\<lambda>k. [Get (base_url t @ ep), Sleep interval]) [0..<nat (N - 1)])
                   @ [Get (base_url t @ ep)]
              \<and> int (length (sent w')) = int (length (sent w)) + N
              \<and> slept w' = slept w @ replicate (nat (N - 1)) interval"
    by (simp add: nat_diff_distrib map_replicate_const urls_rounds_replicate
          sleeps_rounds_replicate)
next
  assume h: "\<forall>k. int k < N - 1 \<longrightarrow>
                time_sleep lib (delay_after lib initial_delay delay_increment k) = None"
  have "\<forall>j. j < nat N - 1 \<longrightarrow>
          time_sleep lib (delay_after lib initial_delay delay_increment j) = None"
  proof (intro allI impI)
    fix j assume "j < nat N - 1"
    then have "int j < N - 1" using assms by linarith
    then show "time_sleep lib (delay_after lib initial_delay delay_increment j) = None"
      using h by blast
  qed
  from test_delayed_pattern_run [OF assms this, of net ep t w] assms
  show "\<exists>recs t' w'. test_delayed_pattern lib net N initial_delay delay_increment ep (t, w)
                            = (Inr recs, (t', w'))
              \<and> int (length recs) = N \<and> results t' = results t @ recs
              \<and> trace w' = trace w
                   @ concat (map (\<lambda>k. [Get (base_url t @ ep),
                                        Sleep (delay_after lib initial_delay delay_increment k)])
                               [0..<nat (N - 1)])
                   @ [Get (base_url t @ ep)]
              \<and> int (length (sent w')) = int (length (sent w)) + N
              \<and> slept w' = slept w @ map (delay_after lib initial_delay delay_increment)
                                         [0..<nat (N - 1)]"
    by (simp add: nat_diff_distrib urls_rounds sleeps_rounds)
next
  assume "\<forall>j < k. float_add lib (initial_delay + real j * delay_increment) delay_increment
                        = initial_delay + real j * delay_increment + delay_increment"
  then show "delay_after lib initial_delay delay_increment k
                = initial_delay + real k * delay_increment"
    by (rule delay_after_exact)
qed

text \<open>
  \<open>N = 3\<close>: GET, sleep 0.5, GET, sleep 0.5, GET for the sustained driver with interval
  0.5; GET, sleep 1.0, GET, sleep 1.5, GET for the delayed driver with initial delay 1.0
  and increment 0.5, where the additions are exact.
\<close>

theorem pattern_driver_rounds_witness:
  "trace (snd (snd (test_sustained_pattern example_library (always silent_failure) 3 (1 / 2) users_octocat
                      (example_tester, fresh_world))))
     = [Get (base_url example_tester @ users_octocat), Sleep (1 / 2),
        Get (base_url example_tester @ users_octocat), Sleep (1 / 2),
        Get (base_url example_tester @ users_octocat)]
   \<and> length (results (fst (snd (test_sustained_pattern example_library (always silent_failure) 3 (1 / 2)
                      users_octocat (example_tester, fresh_world))))) = 3
   \<and> trace (snd (snd (test_delayed_pattern example_library (always silent_failure) 3 1 (1 / 2) users_octocat
                      (example_tester, fresh_world))))
     = [Get (base_url example_tester @ users_octocat), Sleep 1,
        Get (base_url example_tester @ users_octocat), Sleep (3 / 2),
        Get (base_url example_tester @ users_octocat)]
   \<and> length (results (fst (snd (test_delayed_pattern example_library (always silent_failure) 3 1 (1 / 2)
                      users_octocat (example_tester, fresh_world))))) = 3
   \<and> delay_after example_library 1 (1 / 2) 1 = 1 + real 1 * (1 / 2)"
proof -
  let ?u = "base_url example_tester @ users_octocat"
  have h1: "(1::int) \<le> 3" by simp
  have h2: "time_sleep example_library (1 / 2) = None"
    by (simp add: example_library_fields example_sleep_def)
  have h3: "\<forall>k. int k < 3 - 1 \<longrightarrow> time_sleep example_library (delay_after example_library 1 (1 / 2) k) = None"
  proof (intro allI impI)
    fix k :: nat assume "int k < 3 - 1"
    then have "k = 0 \<or> k = 1" by linarith
    then show "time_sleep example_library (delay_after example_library 1 (1 / 2) k) = None"
      by (auto simp: delay_after_example example_library_fields example_sleep_def)
  qed
  have h4: "\<forall>j < (1::nat). float_add example_library (1 + real j * (1 / 2)) (1 / 2)
              = 1 + real j * (1 / 2) + 1 / 2"
    by (simp add: example_library_fields)
  have e: "results example_tester = []" "trace fresh_world = []"
    by (simp_all add: example_tester_def fresh_world_def)
  have up: "[0..<nat (3 - 1)] = [0, 1]" by (simp add: upt_conv_Cons)
  note p = pattern_driver_rounds [OF h1, of example_library "1 / 2" "always silent_failure" users_octocat
             example_tester fresh_world 1 "1 / 2" 1]
  from p h2 obtain recs t' w' where
    a: "test_sustained_pattern example_library (always silent_failure) 3 (1 / 2) users_octocat
          (example_tester, fresh_world) = (Inr recs, (t', w'))"
       "int (length recs) = 3" "results t' = results example_tester @ recs"
       "trace w' = trace fresh_world
          @ concat (map (\<lambda>k. [Get ?u, Sleep (1 / 2)]) [0..<nat (3 - 1)]) @ [Get ?u]"
    by blast
  from p h3 obtain recs2 t2 w2 where
    b: "test_delayed_pattern example_library (always silent_failure) 3 1 (1 / 2) users_octocat
          (example_tester, fresh_world) = (Inr recs2, (t2, w2))"
       "int (length recs2) = 3" "results t2 = results example_tester @ recs2"
       "trace w2 = trace fresh_world
          @ concat (map (\<lambda>k. [Get ?u, Sleep (delay_after example_library 1 (1 / 2) k)]) [0..<nat (3 - 1)])
          @ [Get ?u]"
    by blast
  from p h4 have c: "delay_after example_library 1 (1 / 2) 1 = 1 + real 1 * (1 / 2)" by blast
  have "trace w' = [Get ?u, Sleep (1 / 2), Get ?u, Sleep (1 / 2), Get ?u]"
    using a(4) e up by simp
  moreover have "length (results t') = 3" using a(2,3) e by simp
  moreover have "trace w2 = [Get ?u, Sleep 1, Get ?u, Sleep (3 / 2), Get ?u]"
    using b(4) e up by (simp add: delay_after_example)
  moreover have "length (results t2) = 3" using b(2,3) e by simp
  ultimately show ?thesis using a(1) b(1) c by simp
qed

text \<open>
  The claim as stated has no condition on the interval: with \<open>N = 2\<close> and an interval
  of -1 second the sustained driver sends one GET, \<^verbatim>\<open>time.sleep\<close> raises
  \<^verbatim>\<open>ValueError\<close>, and the second call is never made.
\<close>

theorem negative_interval_counterexample:
  "fst (test_sustained_pattern example_library (always silent_failure) 2 (- 1) users_octocat
          (example_tester, fresh_world)) = Inl NegativeSleep
   \<and> trace (snd (snd (test_sustained_pattern example_library (always silent_failure) 2 (- 1) users_octocat
          (example_tester, fresh_world))))
      = [Get (base_url example_tester @ users_octocat)]"
proof -
  have up: "[0..<nat 2] = [0, 1]" by (simp add: upt_conv_Cons)
  have sl: "time_sleep example_library (- 1) = Some NegativeSleep"
    by (simp add: example_library_fields example_sleep_def)
  show ?thesis
    unfolding test_sustained_pattern_def up sustained_loop.simps make_request_eq
    by (simp add: sleep_Some [OF sl] fresh_world_def)
qed

subsection \<open>The analyzer\<close>

lemma py_int_NA: "py_int ''N/A'' = None" by code_simp

lemma py_int_5000: "py_int ''5000'' = Some 5000" by code_simp


lemma to_numeric_58: "to_numeric_decimal ''58'' = Finite 58" by code_simp


lemma py_int_huge: "py_int (CHR ''1'' # replicate 309 CHR ''0'') = Some (10 ^ 309)" by code_simp

lemma float_divide_huge: "float_divide x (10 ^ 309) = Inl OverflowError"
  by (simp add: float_divide_def)

lemma float_divide_5000: "float_divide (Finite y) 5000 = Inr (Finite (y / 5000))"
  by (simp add: float_divide_def)

lemma percent_used_Finite:
  "\<bar>y * 100\<bar> < 2 ^ 1024 - 2 ^ 970 \<Longrightarrow> percent_used (Finite y) = Finite (100 - y * 100)"
  by (simp add: percent_used_def)


lemma analyze_results_Nil: "results t = [] \<Longrightarrow> analyze_results lib t = Inr None"
  by (simp add: analyze_results_def)

lemma rate_limit_data_subset: "rate_limit_data df \<noteq> [] \<Longrightarrow> df \<noteq> []"
  by (auto simp: rate_limit_data_def)

lemma analyze_results_no_rate:
  "results t \<noteq> [] \<Longrightarrow> rate_limit_data (results t) = [] \<Longrightarrow>
     analyze_results lib t = Inr (Some (basic_analysis (results t)))"
  by (simp add: analyze_results_def Let_def)

lemma analyze_results_raise:
  "rate_limit_data (results t) \<noteq> [] \<Longrightarrow>
   int_str lib (rate_limit_limit (hd (rate_limit_data (results t)))) = None \<Longrightarrow>
     analyze_results lib t = Inl (InvalidLiteral (rate_limit_limit (hd (rate_limit_data (results t)))))"
  using rate_limit_data_subset [of "results t"] by (simp add: analyze_results_def Let_def)

lemma analyze_results_overflow:
  "rate_limit_data (results t) \<noteq> [] \<Longrightarrow>
   int_str lib (rate_limit_limit (hd (rate_limit_data (results t)))) = Some n \<Longrightarrow>
   true_divide lib (to_numeric lib (rate_limit_remaining (last (rate_limit_data (results t))))) n
     = Inl e \<Longrightarrow>
     analyze_results lib t = Inl e"
  using rate_limit_data_subset [of "results t"]
  by (simp add: analyze_results_def Let_def last_map usage_percent_def)

lemma analyze_results_rate:
  "rate_limit_data (results t) \<noteq> [] \<Longrightarrow>
   int_str lib (rate_limit_limit (hd (rate_limit_data (results t)))) = Some n \<Longrightarrow>
   true_divide lib (to_numeric lib (rate_limit_remaining (last (rate_limit_data (results t))))) n
     = Inr q \<Longrightarrow>
     analyze_results lib t =
       Inr (Some (basic_analysis (results t)
         \<lparr> final_rate_limit_remaining :=
              Some (to_numeric lib (rate_limit_remaining (last (rate_limit_data (results t))))),
           rate_limit_usage := Some (percent_used q) \<rparr>))"
  using rate_limit_data_subset [of "results t"]
  by (simp add: analyze_results_def Let_def last_map usage_percent_def)


lemma analyze_results_Inr:
  assumes "results t \<noteq> []" and "analyze_results lib t = Inr s"
  shows "\<exists>f u. s = Some (basic_analysis (results t)
                   \<lparr> final_rate_limit_remaining := f, rate_limit_usage := u \<rparr>)"
proof (cases "rate_limit_data (results t) = []")
  case True
  have "s = Some (basic_analysis (results t))"
    using analyze_results_no_rate [OF assms(1) True, of lib] assms(2) by simp
  then have "s = Some (basic_analysis (results t)
                 \<lparr> final_rate_limit_remaining := None, rate_limit_usage := None \<rparr>)"
    by (simp add: basic_analysis_def Let_def)
  then show ?thesis by blast
next
  case False
  show ?thesis
  proof (cases "int_str lib (rate_limit_limit (hd (rate_limit_data (results t))))")
    case None
    then show ?thesis using analyze_results_raise [OF False None] assms(2) by simp
  next
    case (Some n)
    show ?thesis
    proof (cases "true_divide lib
                    (to_numeric lib (rate_limit_remaining (last (rate_limit_data (results t))))) n")
      case (Inl e')
      then show ?thesis using analyze_results_overflow [OF False Some Inl] assms(2) by simp
    next
      case (Inr q)
      then show ?thesis using analyze_results_rate [OF False Some Inr] assms(2) by auto
    qed
  qed
qed


lemma series_min_Min: "xs \<noteq> [] \<Longrightarrow> series_min xs = Min (set xs)"
proof -
  assume "xs \<noteq> []"
  then obtain a list where xs: "xs = a # list" by (cases xs) auto
  have "Min (set (a # list)) = fold min list a" by (rule Min.set_eq_fold)
  then show ?thesis unfolding xs series_min_def by simp
qed

lemma series_max_Max: "xs \<noteq> [] \<Longrightarrow> series_max xs = Max (set xs)"
proof -
  assume "xs \<noteq> []"
  then obtain a list where xs: "xs = a # list" by (cases xs) auto
  have "Max (set (a # list)) = fold max list a" by (rule Max.set_eq_fold)
  then show ?thesis unfolding xs series_max_def by simp
qed



lemma results_two_latencies:
  "results two_latencies =
     [build_result (reply 200 Map.empty ''{}'' 100) users_octocat,
      build_result (reply 200 Map.empty ''{}'' 102) users_octocat]"
  by (simp add: two_latencies_def results_tester_after)

lemma times_two_latencies: "map response_time_ms (results two_latencies) = [100, 102]"
  by (simp add: results_two_latencies build_result_reply)

lemma rate_two_latencies: "rate_limit_data (results two_latencies) = []"
  by (simp add: results_two_latencies build_result_reply rate_limit_data_def)

lemma results_changing_limit:
  "results changing_limit =
     [build_result (reply 200 (rate_headers ''4999'' ''5000'') ''{}'' 100) users_octocat,
      build_result (reply 403 (rate_headers ''58'' ''60'') ''rate limit exceeded'' 120) users_octocat]"
  by (simp add: changing_limit_def results_tester_after)

lemma rate_changing_limit: "rate_limit_data (results changing_limit) = results changing_limit"
  by (simp add: results_changing_limit build_result_reply rate_limit_data_def rate_headers_def)

lemma results_no_limit_header:
  "results no_limit_header = [build_result (reply 200 remaining_only ''{}'' 100) users_octocat]"
  by (simp add: no_limit_header_def results_tester_after)

lemma results_no_limit_refused:
  "results no_limit_refused =
     [build_result (reply 403 remaining_only ''rate limit exceeded'' 120) users_octocat]"
  by (simp add: no_limit_refused_def results_tester_after)

lemma analyze_no_limit_refused:
  "analyze_results example_library no_limit_refused = Inl (InvalidLiteral ''N/A'')"
proof -
  have d: "rate_limit_data (results no_limit_refused) = results no_limit_refused"
    by (simp add: results_no_limit_refused build_result_reply rate_limit_data_def remaining_only_def)
  have ne: "rate_limit_data (results no_limit_refused) \<noteq> []"
    unfolding d by (simp add: results_no_limit_refused)
  have l: "rate_limit_limit (hd (rate_limit_data (results no_limit_refused))) = ''N/A''"
    unfolding d by (simp add: results_no_limit_refused build_result_reply remaining_only_def)
  show ?thesis
    using analyze_results_raise [OF ne, of example_library] l py_int_NA by (simp add: example_library_fields)
qed

lemma analyze_no_limit_header:
  "analyze_results example_library no_limit_header = Inl (InvalidLiteral ''N/A'')"
proof -
  have d: "rate_limit_data (results no_limit_header) = results no_limit_header"
    by (simp add: results_no_limit_header build_result_reply rate_limit_data_def remaining_only_def)
  have ne: "rate_limit_data (results no_limit_header) \<noteq> []"
    unfolding d by (simp add: results_no_limit_header)
  have l: "rate_limit_limit (hd (rate_limit_data (results no_limit_header))) = ''N/A''"
    unfolding d by (simp add: results_no_limit_header build_result_reply remaining_only_def)
  show ?thesis
    using analyze_results_raise [OF ne, of example_library] l py_int_NA by (simp add: example_library_fields)
qed

lemma results_huge_limit:
  "results huge_limit =
     [build_result (reply 200 (rate_headers ''25'' (CHR ''1'' # replicate 309 CHR ''0'')) ''{}'' 100)
        users_octocat]"
  by (simp add: huge_limit_def results_tester_after)

lemma limit_huge_limit:
  "rate_limit_limit (hd (results huge_limit)) = CHR ''1'' # replicate 309 CHR ''0''"
  by (simp add: results_huge_limit build_result_reply rate_headers_def)

lemma py_int_huge_limit: "py_int (rate_limit_limit (hd (results huge_limit))) = Some (10 ^ 309)"
  unfolding limit_huge_limit by (rule py_int_huge)

lemma analyze_huge_limit: "analyze_results example_library huge_limit = Inl OverflowError"
proof -
  have d: "rate_limit_data (results huge_limit) = results huge_limit"
    by (simp add: results_huge_limit build_result_reply rate_limit_data_def rate_headers_def)
  have ne: "rate_limit_data (results huge_limit) \<noteq> []"
    unfolding d by (simp add: results_huge_limit)
  have l: "int_str example_library (rate_limit_limit (hd (rate_limit_data (results huge_limit))))
             = Some (10 ^ 309)"
    unfolding d example_library_fields by (rule py_int_huge_limit)
  show ?thesis
    by (rule analyze_results_overflow [OF ne l]) (simp only: example_library_fields float_divide_huge)
qed





text \<open>
  Claim C5, as amended. For the empty store \<^verbatim>\<open>analyze_results\<close> returns the empty
  summary. For every non-empty store, whatever it returns is a summary whose success rate
  is the number of successful records divided by the number of records, times 100, and
  whose mean, minimum, maximum and standard deviation of the response times are taken
  over all records, failed ones included; the standard deviation is the sample standard
  deviation (the sum of squared deviations divided by \<open>n - 1\<close>), which is not a number
  for a single record. It does return when no record has rate-limit data.
\<close>

theorem analyze_results_statistics:
  "(results t = [] \<longrightarrow> analyze_results lib t = Inr None)
   \<and> (results t \<noteq> [] \<and> analyze_results lib t = Inr s \<longrightarrow>
        (\<exists>a. s = Some a
           \<and> success_rate a =
               real (length (filter success (results t))) / real (length (results t)) * 100
           \<and> avg_response_time_ms a =
               sum_list (map response_time_ms (results t)) / real (length (results t))
           \<and> min_response_time_ms a = Min (response_time_ms ` set (results t))
           \<and> max_response_time_ms a = Max (response_time_ms ` set (results t))
           \<and> std_response_time_ms a =
               (if length (results t) = 1 then NotFinite
                else Finite (sqrt ((\<Sum>x\<leftarrow>map response_time_ms (results t).
                                      (x - avg_response_time_ms a)\<^sup>2)
                                   / real (length (results t) - 1))))))
   \<and> (results t \<noteq> [] \<and> rate_limit_data (results t) = [] \<longrightarrow>
        (\<exists>a. analyze_results lib t = Inr (Some a)))"
proof (intro conjI impI)
  assume "results t = []"
  then show "analyze_results lib t = Inr None" by (rule analyze_results_Nil)
next
  assume h: "results t \<noteq> [] \<and> analyze_results lib t = Inr s"
  then obtain f u where a: "s =
      Some (basic_analysis (results t)\<lparr> final_rate_limit_remaining := f, rate_limit_usage := u \<rparr>)"
    using analyze_results_Inr by blast
  have ne: "map response_time_ms (results t) \<noteq> []" using h by simp
  have len: "length (results t) < 2 \<longleftrightarrow> length (results t) = 1"
    using h by (cases "results t") auto
  show "\<exists>a. s = Some a
           \<and> success_rate a =
               real (length (filter success (results t))) / real (length (results t)) * 100
           \<and> avg_response_time_ms a =
               sum_list (map response_time_ms (results t)) / real (length (results t))
           \<and> min_response_time_ms a = Min (response_time_ms ` set (results t))
           \<and> max_response_time_ms a = Max (response_time_ms ` set (results t))
           \<and> std_response_time_ms a =
               (if length (results t) = 1 then NotFinite
                else Finite (sqrt ((\<Sum>x\<leftarrow>map response_time_ms (results t).
                                      (x - avg_response_time_ms a)\<^sup>2)
                                   / real (length (results t) - 1))))"
    unfolding a using series_min_Min [OF ne] series_max_Max [OF ne] len
    by (simp add: basic_analysis_def Let_def mean_def series_std_def)
next
  assume "results t \<noteq> [] \<and> rate_limit_data (results t) = []"
  then show "\<exists>a. analyze_results lib t = Inr (Some a)"
    using analyze_results_no_rate [of t lib] by simp
qed

theorem analyze_results_statistics_witness:
  "results example_tester = []
   \<and> analyze_results example_library example_tester = Inr None
   \<and> results two_latencies \<noteq> [] \<and> rate_limit_data (results two_latencies) = []
   \<and> (\<exists>a. analyze_results example_library two_latencies = Inr (Some a)
          \<and> success_rate a = 100 \<and> avg_response_time_ms a = 101
          \<and> min_response_time_ms a = 100 \<and> max_response_time_ms a = 102
          \<and> std_response_time_ms a = Finite (sqrt 2))"
proof -
  have e: "results example_tester = []" by (simp add: example_tester_def)
  from analyze_results_statistics [of example_tester example_library] e
  have none: "analyze_results example_library example_tester = Inr None" by blast
  have ne: "results two_latencies \<noteq> []" by (simp add: results_two_latencies)
  have len: "length (results two_latencies) = 2" by (simp add: results_two_latencies)
  have succ: "filter success (results two_latencies) = results two_latencies"
    by (simp add: results_two_latencies build_result_reply)
  have img: "response_time_ms ` set (results two_latencies) = {100, 102}"
    using times_two_latencies by (metis list.set_map list.simps(15) empty_set)
  from analyze_results_statistics [of two_latencies example_library] ne rate_two_latencies
  obtain b where b: "analyze_results example_library two_latencies = Inr (Some b)" by blast
  from analyze_results_statistics [of two_latencies example_library "Some b"] ne b
  obtain a where a: "Some b = Some a"
    "success_rate a =
       real (length (filter success (results two_latencies))) / real (length (results two_latencies)) * 100"
    "avg_response_time_ms a =
       sum_list (map response_time_ms (results two_latencies)) / real (length (results two_latencies))"
    "min_response_time_ms a = Min (response_time_ms ` set (results two_latencies))"
    "max_response_time_ms a = Max (response_time_ms ` set (results two_latencies))"
    "std_response_time_ms a =
       (if length (results two_latencies) = 1 then NotFinite
        else Finite (sqrt ((\<Sum>x\<leftarrow>map response_time_ms (results two_latencies).
                              (x - avg_response_time_ms a)\<^sup>2)
                           / real (length (results two_latencies) - 1))))"
    by blast
  have ab: "analyze_results example_library two_latencies = Inr (Some a)" using a(1) b by simp
  have avg: "avg_response_time_ms a = 101" using a(3) by (simp add: times_two_latencies len)
  have "std_response_time_ms a = Finite (sqrt 2)"
    using a(6) by (simp add: avg times_two_latencies len power2_eq_square)
  moreover have "success_rate a = 100" using a(2) by (simp add: succ len)
  moreover have "min_response_time_ms a = 100" "max_response_time_ms a = 102"
    using a(4,5) by (simp_all add: img)
  ultimately show ?thesis using e none ne rate_two_latencies ab avg by blast
qed

text \<open>
  The claim as stated names the population standard deviation: for response times of 100
  and 102 ms the summary holds the square root of 2, the population standard deviation
  is 1. It also promises a summary for every non-empty store: for one refused request
  whose response has a remaining quota and no limit, \<^verbatim>\<open>analyze_results\<close> raises.
\<close>

theorem population_std_counterexample:
  "map_sum id (map_option std_response_time_ms) (analyze_results example_library two_latencies)
     = Inr (Some (Finite (sqrt 2)))
   \<and> population_std (map response_time_ms (results two_latencies)) = 1
   \<and> sqrt 2 \<noteq> (1::real)
   \<and> length (results no_limit_refused) = 1
   \<and> analyze_results example_library no_limit_refused = Inl (InvalidLiteral ''N/A'')"
proof -
  have one: "length (results no_limit_refused) = 1" by (simp add: results_no_limit_refused)
  have ne: "results two_latencies \<noteq> []" by (simp add: results_two_latencies)
  have "analyze_results example_library two_latencies
          = Inr (Some (basic_analysis (results two_latencies)))"
    using analyze_results_no_rate [OF ne rate_two_latencies] .
  moreover have "std_response_time_ms (basic_analysis (results two_latencies)) = Finite (sqrt 2)"
    by (simp add: basic_analysis_def Let_def times_two_latencies series_std_def mean_def power2_eq_square)
  moreover have "population_std (map response_time_ms (results two_latencies)) = 1"
    by (simp add: times_two_latencies population_std_def mean_def power2_eq_square)
  moreover have "sqrt 2 \<noteq> (1::real)" by simp
  ultimately show ?thesis using one analyze_no_limit_refused by simp
qed

text \<open>
  Claim C6, as amended. When some record has a remaining quota other than the sentinel,
  \<^verbatim>\<open>int()\<close> converts the limit of the first such record to \<open>n\<close>, and the division
  of the last such record's remaining quota by \<open>n\<close> returns a quotient \<open>q\<close>,
  \<^verbatim>\<open>analyze_results\<close> returns a summary whose \<open>final_rate_limit_remaining\<close> is the
  number read from the remaining quota of the last such record and whose
  \<open>rate_limit_usage\<close> is 100 minus \<open>q\<close> times 100 (not a number or an infinity when
  \<open>q\<close> is one, or when the product leaves the float range): the denominator is the
  limit of the first such record, whatever the limits of the later ones. When no record has a
  remaining quota other than the sentinel, it returns without error a summary in which
  both keys are not set.
\<close>

theorem rate_limit_summary:
  "(rate_limit_data (results t) \<noteq> []
      \<and> int_str lib (rate_limit_limit (hd (rate_limit_data (results t)))) = Some n
      \<and> true_divide lib (to_numeric lib (rate_limit_remaining (last (rate_limit_data (results t))))) n
          = Inr q \<longrightarrow>
      (\<exists>a. analyze_results lib t = Inr (Some a)
         \<and> final_rate_limit_remaining a =
             Some (to_numeric lib (rate_limit_remaining (last (rate_limit_data (results t)))))
         \<and> rate_limit_usage a = Some (percent_used q)))
   \<and> (\<bar>y * 100\<bar> < 2 ^ 1024 - 2 ^ 970 \<longrightarrow> percent_used (Finite y) = Finite (100 - y * 100))
   \<and> (2 ^ 1024 - 2 ^ 970 \<le> \<bar>y * 100\<bar> \<longrightarrow> percent_used (Finite y) = NotFinite)
   \<and> percent_used NotFinite = NotFinite
   \<and> (rate_limit_data (results t) = [] \<longrightarrow>
        (\<exists>s. analyze_results lib t = Inr s
           \<and> (\<forall>a. s = Some a \<longrightarrow> final_rate_limit_remaining a = None \<and> rate_limit_usage a = None)))"
proof (intro conjI impI)
  assume h: "rate_limit_data (results t) \<noteq> []
      \<and> int_str lib (rate_limit_limit (hd (rate_limit_data (results t)))) = Some n
      \<and> true_divide lib (to_numeric lib (rate_limit_remaining (last (rate_limit_data (results t))))) n
          = Inr q"
  show "\<exists>a. analyze_results lib t = Inr (Some a)
         \<and> final_rate_limit_remaining a =
             Some (to_numeric lib (rate_limit_remaining (last (rate_limit_data (results t)))))
         \<and> rate_limit_usage a = Some (percent_used q)"
    using analyze_results_rate [of t lib n q] h by simp
next
  assume "\<bar>y * 100\<bar> < 2 ^ 1024 - 2 ^ 970"
  then show "percent_used (Finite y) = Finite (100 - y * 100)"
    by (rule percent_used_Finite)
next
  assume "2 ^ 1024 - 2 ^ 970 \<le> \<bar>y * 100\<bar>"
  then show "percent_used (Finite y) = NotFinite"
    by (simp add: percent_used_def)
next
  show "percent_used NotFinite = NotFinite"
    by (simp add: percent_used_def)
next
  assume h: "rate_limit_data (results t) = []"
  show "\<exists>s. analyze_results lib t = Inr s
           \<and> (\<forall>a. s = Some a \<longrightarrow> final_rate_limit_remaining a = None \<and> rate_limit_usage a = None)"
  proof (cases "results t = []")
    case True
    then show ?thesis by (simp add: analyze_results_Nil)
  next
    case False
    then show ?thesis
      using analyze_results_no_rate [OF False h, of lib]
      by (simp add: basic_analysis_def Let_def)
  qed
qed

text \<open>
  A run whose second response carries another limit: the usage is computed from the
  first limit, 5000, and the last remaining quota, 58, which comes from a refused request.
\<close>

theorem rate_limit_summary_witness:
  "rate_limit_data (results changing_limit) \<noteq> []
   \<and> int_str example_library (rate_limit_limit (hd (rate_limit_data (results changing_limit)))) = Some 5000
   \<and> true_divide example_library (Finite 58) 5000 = Inr (Finite (58 / real_of_int 5000))
   \<and> (\<exists>a. analyze_results example_library changing_limit = Inr (Some a)
         \<and> final_rate_limit_remaining a = Some (Finite 58)
         \<and> rate_limit_usage a = Some (Finite (100 - 58 / 5000 * 100)))
   \<and> rate_limit_data (results two_latencies) = []
   \<and> (\<exists>a. analyze_results example_library two_latencies = Inr (Some a)
         \<and> final_rate_limit_remaining a = None \<and> rate_limit_usage a = None)"
proof -
  have ne2: "results two_latencies \<noteq> []" by (simp add: results_two_latencies)
  from rate_limit_summary [of two_latencies example_library 0 NotFinite 0] rate_two_latencies
  obtain s where s: "analyze_results example_library two_latencies = Inr s"
    "\<forall>a. s = Some a \<longrightarrow> final_rate_limit_remaining a = None \<and> rate_limit_usage a = None"
    by blast
  from s(1) analyze_results_no_rate [OF ne2 rate_two_latencies, of example_library]
  obtain a2 where "s = Some a2" by auto
  with s have omitted: "\<exists>a. analyze_results example_library two_latencies = Inr (Some a)
         \<and> final_rate_limit_remaining a = None \<and> rate_limit_usage a = None"
    by blast
  have h1: "rate_limit_data (results changing_limit) \<noteq> []"
    unfolding rate_changing_limit by (simp add: results_changing_limit)
  have h2: "int_str example_library (rate_limit_limit (hd (rate_limit_data (results changing_limit)))) = Some 5000"
    unfolding rate_changing_limit
    by (simp add: results_changing_limit build_result_reply rate_headers_def py_int_5000 example_library_fields)
  have l: "to_numeric example_library (rate_limit_remaining (last (rate_limit_data (results changing_limit)))) = Finite 58"
    unfolding rate_changing_limit
    by (simp add: results_changing_limit build_result_reply rate_headers_def to_numeric_58 example_library_fields)
  have h3: "true_divide example_library (Finite 58) 5000 = Inr (Finite (58 / real_of_int 5000))"
    by (simp add: example_library_fields float_divide_5000)
  note r = rate_limit_summary [of changing_limit example_library 5000 "Finite (58 / real_of_int 5000)"
             "58 / real_of_int 5000"]
  from r h1 h2 h3 l
  obtain a where a: "analyze_results example_library changing_limit = Inr (Some a)"
    "final_rate_limit_remaining a =
       Some (to_numeric example_library (rate_limit_remaining (last (rate_limit_data (results changing_limit)))))"
    "rate_limit_usage a = Some (percent_used (Finite (58 / real_of_int 5000)))"
    by auto
  have "\<bar>58 / real_of_int 5000 * 100\<bar> < 2 ^ 1024 - 2 ^ 970" by simp
  with r have u: "percent_used (Finite (58 / real_of_int 5000)) = Finite (100 - 58 / real_of_int 5000 * 100)"
    by blast
  have "final_rate_limit_remaining a = Some (Finite 58)" using a(2) l by simp
  moreover have "rate_limit_usage a = Some (Finite (100 - 58 / 5000 * 100))" using a(3) u by simp
  ultimately show ?thesis using h1 h2 h3 a(1) rate_two_latencies omitted by blast
qed

text \<open>
  The claim as stated promises the two fields for every store with rate-limit data: for
  one record with a remaining quota of 10 and no limit, \<^verbatim>\<open>analyze_results\<close> raises
  \<^verbatim>\<open>ValueError\<close>, and for one record with a remaining quota of 25 and a limit of
  310 digits, which \<^verbatim>\<open>int()\<close> converts, the division raises \<^verbatim>\<open>OverflowError\<close>.
\<close>

theorem missing_limit_counterexample:
  "map rate_limit_remaining (results no_limit_header) = [''10'']
   \<and> analyze_results example_library no_limit_header = Inl (InvalidLiteral ''N/A'')
   \<and> map rate_limit_remaining (results huge_limit) = [''25'']
   \<and> py_int (rate_limit_limit (hd (results huge_limit))) = Some (10 ^ 309)
   \<and> analyze_results example_library huge_limit = Inl OverflowError"
proof -
  have "map rate_limit_remaining (results no_limit_header) = [''10'']"
    by (simp add: results_no_limit_header build_result_reply remaining_only_def)
  moreover have "map rate_limit_remaining (results huge_limit) = [''25'']"
    by (simp add: results_huge_limit build_result_reply rate_headers_def)
  ultimately show ?thesis
    using analyze_no_limit_header py_int_huge_limit analyze_huge_limit by (simp only: simp_thms)
qed




subsection \<open>The script\<close>

lemma init_example_tester: "init (Some ''t0k3n'') None default_base_url = Inr example_tester"
  by (simp add: init_def py_or_def truthy_def example_tester_def)

text \<open>
  Claim C8, as amended. With no token argument and no \<^verbatim>\<open>GITHUB_TOKEN\<close> (absent or
  empty) the constructor raises \<^verbatim>\<open>ValueError\<close> with its message; it touches neither
  the network nor the clock. Run with the variable unset or empty, the script prints its
  two lines of diagnostic, sends no request, does not sleep, and \<^verbatim>\<open>main\<close> returns: the exit status
  of the process is 0.
\<close>

theorem missing_credential:
  "(\<not> truthy token_arg \<and> \<not> truthy env_token \<longrightarrow> init token_arg env_token base = Inl (ValueError token_required))
   \<and> (\<not> truthy env_token \<longrightarrow>
        fst (run_script lib env_token net w) = 0
        \<and> sent (snd (run_script lib env_token net w)) = sent w
        \<and> slept (snd (run_script lib env_token net w)) = slept w
        \<and> stdout (snd (run_script lib env_token net w)) =
            stdout w @ [''Error: GITHUB_TOKEN environment variable is not set.'',
                        ''Please set it with: export GITHUB_TOKEN=your_token_here''])"
proof (rule conjI; rule impI)
  assume "\<not> truthy token_arg \<and> \<not> truthy env_token"
  then show "init token_arg env_token base = Inl (ValueError token_required)"
    by (auto simp: init_def py_or_def truthy_def split: option.splits)
next
  assume h: "\<not> truthy env_token"
  then have m: "main lib env_token net w =
      (Inr (), print ''Please set it with: export GITHUB_TOKEN=your_token_here''
                 (print ''Error: GITHUB_TOKEN environment variable is not set.'' w))"
    by (simp add: main_def Let_def)
  show "fst (run_script lib env_token net w) = 0
        \<and> sent (snd (run_script lib env_token net w)) = sent w
        \<and> slept (snd (run_script lib env_token net w)) = slept w
        \<and> stdout (snd (run_script lib env_token net w)) =
            stdout w @ [''Error: GITHUB_TOKEN environment variable is not set.'',
                        ''Please set it with: export GITHUB_TOKEN=your_token_here'']"
    by (simp add: run_script_def m exit_status_def print_def)
qed

theorem missing_credential_witness:
  "\<not> truthy None \<and> \<not> truthy (Some [])
   \<and> init None (Some []) default_base_url = Inl (ValueError token_required)
   \<and> sent (snd (run_script example_library (Some []) (always silent_failure) fresh_world)) = []"
proof -
  have h: "\<not> truthy None" "\<not> truthy (Some [])" by (simp_all add: truthy_def)
  note m = missing_credential [of None "Some []" default_base_url example_library
             "always silent_failure" fresh_world]
  have a: "init None (Some []) default_base_url = Inl (ValueError token_required)"
    using m h by blast
  have b: "sent (snd (run_script example_library (Some []) (always silent_failure) fresh_world))
           = sent fresh_world"
    using m h by blast
  show ?thesis using h a b by simp
qed

text \<open>
  The claim as stated asks for a non-zero exit status: with the variable unset the
  status is 0.
\<close>

theorem exit_status_counterexample:
  "fst (run_script example_library None (always silent_failure) fresh_world) = 0"
  by (simp add: run_script_def main_def Let_def truthy_def exit_status_def)

end
